theory Spec2Isabelle
  imports Main
begin

section \<open>Data model\<close>

text \<open>
  The wallet service keeps its state in PostgreSQL tables reached through knex. The model
  carries the tables the ledger operations read or write. Money columns are decimals that
  the code reads with \<open>parseFloat\<close>; they are modelled as exact integers (binary
  floating point rounding is outside the model: where the code adds in JavaScript, as for
  the creator-side \<open>balance_after\<close> of a release, the model adds exactly, which is the
  same value for amounts below \<open>2^53\<close>). Row identifiers that the database
  generates are natural numbers; identifiers that callers pass in stay strings. A table
  with a unique key that every query goes through (\<open>brand_wallets\<close> by \<open>brand_id\<close>,
  \<open>wallets\<close> by \<open>user_id\<close>) is a map from that key; the other tables are lists of rows
  in insertion order. Free-text columns (\<open>description\<close>, \<open>currency\<close>) and the
  fire-and-forget notifications are left out.
  \<open>new Date()\<close> is the parameter \<open>now\<close> of each operation.
\<close>

type_synonym money = int
type_synonym timestamp = nat

datatype status = Pending | Processing | Completed | Failed | Cancelled | Reversed

datatype error =
    AmountMustBeGreaterThanZero
  | BrandWalletNotFound
  | InsufficientEscrowBalance money money
  | InsufficientEscrowOnHold money money
  | TransactionNotFoundOrAlreadyProcessed
  | PaymentVerificationFailed
  | InvalidTokenAmount
  | FailedToCreditTokens
  | FailedToCreditEscrow
  | BankAccountNotFound
  | BankAccountMustBeVerified
  | WalletNotFound
  | InsufficientBalance
  | TransactionNotFound
  | TransactionIsNotAWithdrawal
  | TransactionCannotBeProcessed
  | NoBrandLinked
  | NoActivePackage
  | CreatorAlreadyUnlocked
  | CreatorNotFound
  | InsufficientTokenBalance money money
  | CannotReadPropertiesOfUndefined

text \<open>\<open>error.message\<close>, without the interpolated amounts.\<close>

fun message :: "error \<Rightarrow> string" where
  "message AmountMustBeGreaterThanZero = ''Amount must be greater than 0''"
| "message BrandWalletNotFound = ''Brand wallet not found''"
| "message (InsufficientEscrowBalance _ _) = ''Insufficient escrow balance''"
| "message (InsufficientEscrowOnHold _ _) = ''Insufficient escrow on hold''"
| "message TransactionNotFoundOrAlreadyProcessed = ''Transaction not found or already processed''"
| "message PaymentVerificationFailed = ''Payment verification failed''"
| "message InvalidTokenAmount = ''Invalid token amount in transaction''"
| "message FailedToCreditTokens = ''Payment successful but failed to credit tokens. Please contact support.''"
| "message FailedToCreditEscrow = ''Failed to credit escrow. Please contact support.''"
| "message BankAccountNotFound = ''Bank account not found''"
| "message BankAccountMustBeVerified = ''Bank account must be verified for withdrawals''"
| "message WalletNotFound = ''Wallet not found''"
| "message InsufficientBalance = ''Insufficient balance''"
| "message TransactionNotFound = ''Transaction not found''"
| "message TransactionIsNotAWithdrawal = ''Transaction is not a withdrawal''"
| "message TransactionCannotBeProcessed = ''Transaction cannot be processed''"
| "message NoBrandLinked = ''No brand linked to this user. Please complete brand registration first.''"
| "message NoActivePackage = ''No active package found for brand''"
| "message CreatorAlreadyUnlocked = ''Creator profile is already unlocked''"
| "message CreatorNotFound = ''Creator not found''"
| "message (InsufficientTokenBalance _ _) = ''Insufficient token balance''"
| "message CannotReadPropertiesOfUndefined =
     ''Cannot read properties of undefined (reading 'escrow_balance')''"

text \<open>The JSON blob stored with a transaction, as a record of the keys the code writes.\<close>

record metadata =
  md_package_id :: "string option"
  md_package_name :: "string option"
  md_package_display_name :: "string option"
  md_package_type :: "string option"
  md_tokens_included :: "int option"
  md_validity_days :: "nat option"
  md_campaign_id :: "string option"
  md_application_id :: "string option"
  md_creator_id :: "string option"
  md_brand_id :: "string option"
  md_razorpay_payment_id :: "string option"
  md_processed_via :: "string option"

definition no_metadata :: metadata where
  "no_metadata = \<lparr> md_package_id = None, md_package_name = None,
     md_package_display_name = None, md_package_type = None, md_tokens_included = None,
     md_validity_days = None, md_campaign_id = None, md_application_id = None,
     md_creator_id = None, md_brand_id = None, md_razorpay_payment_id = None,
     md_processed_via = None \<rparr>"

text \<open>Table \<open>brand_wallets\<close>, one row per brand.\<close>

record brand_wallet =
  bw_user_id :: string
  token_balance :: money
  total_tokens_credited :: money
  total_tokens_debited :: money
  escrow_balance :: money
  escrow_on_hold :: money
  total_escrow_deposited :: money
  total_escrow_released :: money
  total_escrow_refunded :: money
  current_package :: string
  current_package_id :: "string option"
  package_activated_at :: "timestamp option"
  package_expires_at :: "timestamp option"
  bw_last_transaction_at :: "timestamp option"

text \<open>Table \<open>brand_transactions\<close>.\<close>

record brand_transaction =
  bt_id :: nat
  bt_brand_id :: string
  bt_user_id :: string
  bt_transaction_type :: string
  bt_amount :: money
  bt_currency_type :: string
  bt_balance_after :: money
  bt_reference_type :: string
  bt_reference_id :: "string option"
  bt_payment_gateway_id :: "string option"
  bt_status :: status
  bt_failure_reason :: "string option"
  bt_metadata :: metadata
  bt_processed_at :: "timestamp option"

text \<open>Table \<open>wallets\<close>, one row per creator.\<close>

record wallet =
  balance :: money
  pending_balance :: money
  total_earnings :: money
  total_withdrawals :: money
  last_transaction_at :: "timestamp option"

text \<open>
  Table \<open>transactions\<close> (creator side). \<open>createTransaction\<close> does not write the
  column \<open>balance_after\<close>, so it is nullable.
\<close>

record transaction =
  tx_id :: nat
  tx_user_id :: string
  tx_transaction_type :: string
  tx_amount :: money
  tx_balance_after :: "money option"
  tx_status :: status
  tx_reference_type :: "string option"
  tx_reference_id :: "string option"
  tx_payment_method :: "string option"
  tx_bank_account_id :: "string option"
  tx_external_transaction_id :: "string option"
  tx_failure_reason :: "string option"
  tx_metadata :: metadata
  tx_processed_at :: "timestamp option"

datatype verification_status = VerificationPending | Verified | Rejected

record bank_account =
  ba_id :: string
  ba_user_id :: string
  ba_bank_name :: string
  ba_account_number :: string
  verification_status :: verification_status

record package =
  pkg_id :: string
  pkg_user_type :: string
  pkg_package_type :: string
  pkg_name :: string
  pkg_display_name :: string
  pkg_tokens_included :: int
  pkg_price :: money
  pkg_report_token_cost :: money
  pkg_validity_days :: "nat option"
  pkg_is_active :: bool
  pkg_sort_order :: int

record brand =
  brand_id :: string
  brand_user_id :: string

text \<open>Table \<open>ce_users\<close>: the creators, by id.\<close>

record ce_user =
  cu_id :: string
  cu_username :: string

record unlocked_creator =
  uc_id :: nat
  uc_brand_id :: string
  uc_creator_id :: string
  uc_unlocked_by_user_id :: string
  uc_transaction_id :: nat
  uc_tokens_spent :: money
  uc_package_id :: string
  uc_package_name :: string
  uc_unlocked_at :: timestamp

record db =
  brand_wallets :: "string \<rightharpoonup> brand_wallet"
  brand_transactions :: "brand_transaction list"
  wallets :: "string \<rightharpoonup> wallet"
  transactions :: "transaction list"
  bank_accounts :: "bank_account list"
  packages :: "package list"
  brands :: "brand list"
  ce_users :: "ce_user list"
  brand_unlocked_creators :: "unlocked_creator list"

section \<open>Storage primitives\<close>

text \<open>A generated primary key: larger than every key already in the table.\<close>

definition fresh_id :: "nat list \<Rightarrow> nat" where
  "fresh_id ids = Suc (fold max ids 0)"

text \<open>
  \<open>const trx = await db.transaction(); try { ...; await trx.commit() }
  catch (e) { await trx.rollback(); throw e }\<close>: the writes of the body are kept when it
  returns and dropped when it throws.
\<close>

definition in_transaction :: "(db \<Rightarrow> (error + 'a) \<times> db) \<Rightarrow> db \<Rightarrow> (error + 'a) \<times> db" where
  "in_transaction body d =
     (case body d of
        (Inl e, _) \<Rightarrow> (Inl e, d)
      | (Inr v, d') \<Rightarrow> (Inr v, d'))"

text \<open>JavaScript \<open>x || d\<close> on a number: \<open>0\<close> (and \<open>NaN\<close>) are falsy.\<close>

definition or_num :: "int \<Rightarrow> int \<Rightarrow> int" where
  "or_num x d = (if x = 0 then d else x)"

text \<open>JavaScript \<open>s || d\<close> on an optional string: a missing key and \<open>''\<close> are falsy.\<close>

definition or_str :: "string option \<Rightarrow> string \<Rightarrow> string" where
  "or_str s d = (case s of None \<Rightarrow> d | Some v \<Rightarrow> if v = [] then d else v)"

text \<open>
  A key whose value is \<open>undefined\<close> in the object given to knex's \<open>update\<close> is left
  out of the statement, so the column keeps its value.
\<close>

definition unless_undefined :: "'a option \<Rightarrow> 'a option \<Rightarrow> 'a option" where
  "unless_undefined v old = (case v of None \<Rightarrow> old | Some x \<Rightarrow> Some x)"

section \<open>Escrow engine\<close>

record hold_escrow_input =
  hi_brand_id :: string
  hi_user_id :: string
  hi_amount :: money
  hi_campaign_id :: string

record hold_escrow_result =
  hr_escrow_balance :: money
  hr_escrow_on_hold :: money

definition holdEscrow :: "timestamp \<Rightarrow> hold_escrow_input \<Rightarrow> db \<Rightarrow> (error + hold_escrow_result) \<times> db" where
  "holdEscrow now inp d0 =
     (if hi_amount inp \<le> 0 then (Inl AmountMustBeGreaterThanZero, d0)
      else in_transaction (\<lambda>d.
        case brand_wallets d (hi_brand_id inp) of
          None \<Rightarrow> (Inl BrandWalletNotFound, d)
        | Some w \<Rightarrow>
            let currentBalance = or_num (escrow_balance w) 0 in
            if currentBalance < hi_amount inp
            then (Inl (InsufficientEscrowBalance currentBalance (hi_amount inp)), d)
            else
              let updatedWallet = w \<lparr> escrow_balance := escrow_balance w - hi_amount inp,
                                       escrow_on_hold := escrow_on_hold w + hi_amount inp,
                                       bw_last_transaction_at := Some now \<rparr>;
                  d1 = d \<lparr> brand_wallets := (brand_wallets d)(hi_brand_id inp \<mapsto> updatedWallet) \<rparr>;
                  row = \<lparr> bt_id = fresh_id (map bt_id (brand_transactions d1)),
                          bt_brand_id = hi_brand_id inp,
                          bt_user_id = hi_user_id inp,
                          bt_transaction_type = ''escrow_hold'',
                          bt_amount = hi_amount inp,
                          bt_currency_type = ''escrow'',
                          bt_balance_after = or_num (escrow_balance updatedWallet) 0,
                          bt_reference_type = ''campaign'',
                          bt_reference_id = Some (hi_campaign_id inp),
                          bt_payment_gateway_id = None,
                          bt_status = Completed,
                          bt_failure_reason = None,
                          bt_metadata = no_metadata \<lparr> md_campaign_id := Some (hi_campaign_id inp) \<rparr>,
                          bt_processed_at = Some now \<rparr>;
                  d2 = d1 \<lparr> brand_transactions := brand_transactions d1 @ [row] \<rparr>
              in (Inr \<lparr> hr_escrow_balance = or_num (escrow_balance updatedWallet) 0,
                        hr_escrow_on_hold = or_num (escrow_on_hold updatedWallet) 0 \<rparr>, d2)) d0)"

record release_escrow_input =
  ri_brand_id :: string
  ri_user_id :: string
  ri_amount :: money
  ri_campaign_id :: string
  ri_application_id :: string
  ri_creator_id :: string

record release_escrow_result =
  rr_escrow_on_hold :: money
  rr_total_released :: money
  rr_creator_payment_amount :: money

definition new_wallet :: wallet where
  "new_wallet = \<lparr> balance = 0, pending_balance = 0, total_earnings = 0,
     total_withdrawals = 0, last_transaction_at = None \<rparr>"

definition releaseEscrow :: "timestamp \<Rightarrow> release_escrow_input \<Rightarrow> db \<Rightarrow> (error + release_escrow_result) \<times> db" where
  "releaseEscrow now inp d0 =
     (if ri_amount inp \<le> 0 then (Inl AmountMustBeGreaterThanZero, d0)
      else in_transaction (\<lambda>d.
        case brand_wallets d (ri_brand_id inp) of
          None \<Rightarrow> (Inl BrandWalletNotFound, d)
        | Some w \<Rightarrow>
            let currentOnHold = or_num (escrow_on_hold w) 0 in
            if currentOnHold < ri_amount inp
            then (Inl (InsufficientEscrowOnHold currentOnHold (ri_amount inp)), d)
            else
              let updatedWallet = w \<lparr> escrow_on_hold := escrow_on_hold w - ri_amount inp,
                                       total_escrow_released := total_escrow_released w + ri_amount inp,
                                       bw_last_transaction_at := Some now \<rparr>;
                  d1 = d \<lparr> brand_wallets := (brand_wallets d)(ri_brand_id inp \<mapsto> updatedWallet) \<rparr>;
                  brandRow = \<lparr> bt_id = fresh_id (map bt_id (brand_transactions d1)),
                          bt_brand_id = ri_brand_id inp,
                          bt_user_id = ri_user_id inp,
                          bt_transaction_type = ''escrow_release'',
                          bt_amount = ri_amount inp,
                          bt_currency_type = ''escrow'',
                          bt_balance_after = or_num (escrow_balance updatedWallet) 0,
                          bt_reference_type = ''application'',
                          bt_reference_id = Some (ri_application_id inp),
                          bt_payment_gateway_id = None,
                          bt_status = Completed,
                          bt_failure_reason = None,
                          bt_metadata = no_metadata \<lparr> md_campaign_id := Some (ri_campaign_id inp),
                                                        md_application_id := Some (ri_application_id inp),
                                                        md_creator_id := Some (ri_creator_id inp) \<rparr>,
                          bt_processed_at = Some now \<rparr>;
                  d2 = d1 \<lparr> brand_transactions := brand_transactions d1 @ [brandRow] \<rparr>;
                  d3 = (case wallets d2 (ri_creator_id inp) of
                          None \<Rightarrow> d2 \<lparr> wallets := (wallets d2)(ri_creator_id inp \<mapsto> new_wallet) \<rparr>
                        | Some _ \<Rightarrow> d2);
                  creatorWallet = (case wallets d2 (ri_creator_id inp) of
                          None \<Rightarrow> new_wallet
                        | Some cw \<Rightarrow> cw);
                  newCreatorBalance = or_num (balance creatorWallet) 0 + ri_amount inp;
                  d4 = d3 \<lparr> wallets := (case wallets d3 (ri_creator_id inp) of
                          None \<Rightarrow> wallets d3
                        | Some cw \<Rightarrow> (wallets d3)(ri_creator_id inp \<mapsto>
                            cw \<lparr> balance := balance cw + ri_amount inp,
                                 total_earnings := total_earnings cw + ri_amount inp,
                                 last_transaction_at := Some now \<rparr>)) \<rparr>;
                  creatorRow = \<lparr> tx_id = fresh_id (map tx_id (transactions d4)),
                          tx_user_id = ri_creator_id inp,
                          tx_transaction_type = ''earning'',
                          tx_amount = ri_amount inp,
                          tx_balance_after = Some newCreatorBalance,
                          tx_status = Completed,
                          tx_reference_type = Some ''campaign'',
                          tx_reference_id = Some (ri_campaign_id inp),
                          tx_payment_method = None,
                          tx_bank_account_id = None,
                          tx_external_transaction_id = None,
                          tx_failure_reason = None,
                          tx_metadata = no_metadata \<lparr> md_campaign_id := Some (ri_campaign_id inp),
                                                        md_application_id := Some (ri_application_id inp),
                                                        md_brand_id := Some (ri_brand_id inp) \<rparr>,
                          tx_processed_at = None \<rparr>;
                  d5 = d4 \<lparr> transactions := transactions d4 @ [creatorRow] \<rparr>
              in (Inr \<lparr> rr_escrow_on_hold = or_num (escrow_on_hold updatedWallet) 0,
                        rr_total_released = or_num (total_escrow_released updatedWallet) 0,
                        rr_creator_payment_amount = ri_amount inp \<rparr>, d5)) d0)"

record refund_escrow_input =
  fi_brand_id :: string
  fi_user_id :: string
  fi_amount :: money
  fi_campaign_id :: string
  fi_reason :: string

record refund_escrow_result =
  fr_escrow_balance :: money
  fr_escrow_on_hold :: money
  fr_total_refunded :: money

definition refundEscrow :: "timestamp \<Rightarrow> refund_escrow_input \<Rightarrow> db \<Rightarrow> (error + refund_escrow_result) \<times> db" where
  "refundEscrow now inp d0 =
     (if fi_amount inp \<le> 0 then (Inl AmountMustBeGreaterThanZero, d0)
      else in_transaction (\<lambda>d.
        case brand_wallets d (fi_brand_id inp) of
          None \<Rightarrow> (Inl BrandWalletNotFound, d)
        | Some w \<Rightarrow>
            let currentOnHold = or_num (escrow_on_hold w) 0 in
            if currentOnHold < fi_amount inp
            then (Inl (InsufficientEscrowOnHold currentOnHold (fi_amount inp)), d)
            else
              let updatedWallet = w \<lparr> escrow_on_hold := escrow_on_hold w - fi_amount inp,
                                       escrow_balance := escrow_balance w + fi_amount inp,
                                       total_escrow_refunded := total_escrow_refunded w + fi_amount inp,
                                       bw_last_transaction_at := Some now \<rparr>;
                  d1 = d \<lparr> brand_wallets := (brand_wallets d)(fi_brand_id inp \<mapsto> updatedWallet) \<rparr>;
                  row = \<lparr> bt_id = fresh_id (map bt_id (brand_transactions d1)),
                          bt_brand_id = fi_brand_id inp,
                          bt_user_id = fi_user_id inp,
                          bt_transaction_type = ''escrow_refund'',
                          bt_amount = fi_amount inp,
                          bt_currency_type = ''escrow'',
                          bt_balance_after = or_num (escrow_balance updatedWallet) 0,
                          bt_reference_type = ''campaign'',
                          bt_reference_id = Some (fi_campaign_id inp),
                          bt_payment_gateway_id = None,
                          bt_status = Completed,
                          bt_failure_reason = None,
                          bt_metadata = no_metadata \<lparr> md_campaign_id := Some (fi_campaign_id inp) \<rparr>,
                          bt_processed_at = Some now \<rparr>;
                  d2 = d1 \<lparr> brand_transactions := brand_transactions d1 @ [row] \<rparr>
              in (Inr \<lparr> fr_escrow_balance = or_num (escrow_balance updatedWallet) 0,
                        fr_escrow_on_hold = or_num (escrow_on_hold updatedWallet) 0,
                        fr_total_refunded = or_num (total_escrow_refunded updatedWallet) 0 \<rparr>, d2)) d0)"

text \<open>
  One hold followed by one refund, at the two times given; the results are dropped and the
  store is passed on, whether or not the calls succeeded.
\<close>

definition hold_then_refund :: "hold_escrow_input \<Rightarrow> refund_escrow_input \<Rightarrow> timestamp \<times> timestamp \<Rightarrow> db \<Rightarrow> db" where
  "hold_then_refund h r ts d = snd (refundEscrow (snd ts) r (snd (holdEscrow (fst ts) h d)))"

text \<open>The data model's invariant on the two escrow fields of every brand wallet.\<close>

definition escrow_nonneg :: "db \<Rightarrow> bool" where
  "escrow_nonneg d =
     (\<forall>b w. brand_wallets d b = Some w \<longrightarrow> 0 \<le> escrow_balance w \<and> 0 \<le> escrow_on_hold w)"

section \<open>Payment authority\<close>

text \<open>
  The gateway's shared secrets and the keyed hash \<open>crypto.createHmac('sha256', key)
  .update(body).digest('hex')\<close> are parameters of the model.
\<close>

record env =
  hmac_sha256 :: "string \<Rightarrow> string \<Rightarrow> string"
  razorpay_key_secret :: string
  razorpay_webhook_secret :: string

definition verifyPaymentSignature :: "env \<Rightarrow> string \<Rightarrow> string \<Rightarrow> string \<Rightarrow> bool" where
  "verifyPaymentSignature e razorpay_order_id razorpay_payment_id razorpay_signature =
     (let body = razorpay_order_id @ ''|'' @ razorpay_payment_id;
          expectedSignature = hmac_sha256 e (razorpay_key_secret e) body
      in expectedSignature = razorpay_signature)"

record verify_input =
  vi_razorpay_order_id :: string
  vi_razorpay_payment_id :: string
  vi_razorpay_signature :: string
  vi_transaction_id :: nat

text \<open>
  \<open>db('brand_transactions').where('id', transaction_id)
  .where('payment_gateway_id', razorpay_order_id).where('status', 'pending').first()\<close>
\<close>

definition find_pending :: "db \<Rightarrow> nat \<Rightarrow> string \<Rightarrow> brand_transaction option" where
  "find_pending d transaction_id razorpay_order_id =
     find (\<lambda>t. bt_id t = transaction_id
              \<and> bt_payment_gateway_id t = Some razorpay_order_id
              \<and> bt_status t = Pending) (brand_transactions d)"

text \<open>\<open>db('brand_transactions').where('id', transaction_id).update(...)\<close>\<close>

definition update_brand_transaction :: "nat \<Rightarrow> (brand_transaction \<Rightarrow> brand_transaction) \<Rightarrow> db \<Rightarrow> db" where
  "update_brand_transaction transaction_id f d =
     d \<lparr> brand_transactions :=
           map (\<lambda>t. if bt_id t = transaction_id then f t else t) (brand_transactions d) \<rparr>"

definition mark_failed :: "nat \<Rightarrow> string \<Rightarrow> string \<Rightarrow> db \<Rightarrow> db" where
  "mark_failed transaction_id reason razorpay_payment_id d =
     update_brand_transaction transaction_id
       (\<lambda>t. t \<lparr> bt_status := Failed, bt_failure_reason := Some reason,
                bt_metadata := (bt_metadata t) \<lparr> md_razorpay_payment_id := Some razorpay_payment_id \<rparr> \<rparr>) d"

section \<open>Escrow deposit verification\<close>

record verify_escrow_result =
  ve_new_balance :: money
  ve_amount_credited :: money
  ve_transaction_id :: nat

definition verifyEscrowDeposit :: "env \<Rightarrow> timestamp \<Rightarrow> verify_input \<Rightarrow> db \<Rightarrow> (error + verify_escrow_result) \<times> db" where
  "verifyEscrowDeposit e now inp d0 =
     (case find_pending d0 (vi_transaction_id inp) (vi_razorpay_order_id inp) of
        None \<Rightarrow> (Inl TransactionNotFoundOrAlreadyProcessed, d0)
      | Some transaction \<Rightarrow>
          if \<not> verifyPaymentSignature e (vi_razorpay_order_id inp) (vi_razorpay_payment_id inp)
                  (vi_razorpay_signature inp)
          then (Inl PaymentVerificationFailed,
                update_brand_transaction (vi_transaction_id inp)
                  (\<lambda>t. t \<lparr> bt_status := Failed,
                           bt_failure_reason := Some ''Invalid payment signature'' \<rparr>) d0)
          else
            let amountToCredit = or_num (bt_amount transaction) 0 in
            (case in_transaction (\<lambda>d.
                case brand_wallets d (bt_brand_id transaction) of
                  None \<Rightarrow> (Inl CannotReadPropertiesOfUndefined, d)
                | Some w \<Rightarrow>
                    let wallet = w \<lparr> escrow_balance := escrow_balance w + amountToCredit,
                                      total_escrow_deposited := total_escrow_deposited w + amountToCredit,
                                      bw_last_transaction_at := Some now \<rparr>;
                        d1 = d \<lparr> brand_wallets := (brand_wallets d)(bt_brand_id transaction \<mapsto> wallet) \<rparr>;
                        newBalance = or_num (escrow_balance wallet) 0;
                        d2 = update_brand_transaction (vi_transaction_id inp)
                               (\<lambda>t. t \<lparr> bt_status := Completed,
                                        bt_balance_after := newBalance,
                                        bt_processed_at := Some now,
                                        bt_metadata := (bt_metadata t)
                                          \<lparr> md_razorpay_payment_id := Some (vi_razorpay_payment_id inp) \<rparr> \<rparr>) d1
                    in (Inr \<lparr> ve_new_balance = newBalance,
                              ve_amount_credited = amountToCredit,
                              ve_transaction_id = vi_transaction_id inp \<rparr>, d2)) d0 of
               (Inr r, d') \<Rightarrow> (Inr r, d')
             | (Inl err, d') \<Rightarrow>
                 (Inl FailedToCreditEscrow,
                  update_brand_transaction (vi_transaction_id inp)
                    (\<lambda>t. t \<lparr> bt_status := Failed, bt_failure_reason := Some (message err) \<rparr>) d')))"

section \<open>Recharge engine\<close>

record verify_recharge_result =
  vr_transaction_id :: nat
  vr_tokens_credited :: int
  vr_new_balance :: money
  vr_package_name :: string

text \<open>\<open>validityDays ? new Date(Date.now() + validityDays * 24 * 60 * 60 * 1000) : null\<close>\<close>

definition expiry_after :: "timestamp \<Rightarrow> nat option \<Rightarrow> timestamp option" where
  "expiry_after now validityDays =
     (case validityDays of
        None \<Rightarrow> None
      | Some n \<Rightarrow> if n = 0 then None else Some (now + n * 24 * 60 * 60 * 1000))"

text \<open>\<open>parseInt(metadata.tokens_included, 10) || 0\<close> on a stored number.\<close>

definition tokens_of :: "metadata \<Rightarrow> int" where
  "tokens_of m = or_num (case md_tokens_included m of None \<Rightarrow> 0 | Some n \<Rightarrow> n) 0"

definition verifyRecharge :: "env \<Rightarrow> timestamp \<Rightarrow> verify_input \<Rightarrow> db \<Rightarrow> (error + verify_recharge_result) \<times> db" where
  "verifyRecharge e now inp d0 =
     (case find_pending d0 (vi_transaction_id inp) (vi_razorpay_order_id inp) of
        None \<Rightarrow> (Inl TransactionNotFoundOrAlreadyProcessed, d0)
      | Some transaction \<Rightarrow>
          if \<not> verifyPaymentSignature e (vi_razorpay_order_id inp) (vi_razorpay_payment_id inp)
                  (vi_razorpay_signature inp)
          then (Inl PaymentVerificationFailed,
                mark_failed (vi_transaction_id inp) ''Invalid payment signature''
                  (vi_razorpay_payment_id inp) d0)
          else
            let metadata = bt_metadata transaction;
                tokensToCredit = tokens_of metadata;
                packageId = md_package_id metadata;
                packageName = or_str (md_package_name metadata) ''unknown'';
                packageDisplayName = or_str (md_package_display_name metadata) packageName;
                packageType = or_str (md_package_type metadata) ''subscription'';
                validityDays = md_validity_days metadata
            in
            if tokensToCredit \<le> 0 then (Inl InvalidTokenAmount, d0)
            else
            (case in_transaction (\<lambda>d.
                case brand_wallets d (bt_brand_id transaction) of
                  None \<Rightarrow> (Inl BrandWalletNotFound, d)
                | Some wallet \<Rightarrow>
                    let currentBalance = or_num (token_balance wallet) 0;
                        newBalance = currentBalance + tokensToCredit;
                        walletUpdate = wallet \<lparr> token_balance := newBalance,
                                         total_tokens_credited := total_tokens_credited wallet + tokensToCredit,
                                         bw_last_transaction_at := Some now \<rparr>;
                        walletUpdate' =
                          (if packageType = ''subscription''
                           then walletUpdate \<lparr> current_package := packageName,
                                               current_package_id := unless_undefined packageId (current_package_id wallet),
                                               package_activated_at := Some now,
                                               package_expires_at := expiry_after now validityDays \<rparr>
                           else walletUpdate);
                        d1 = d \<lparr> brand_wallets := (brand_wallets d)(bt_brand_id transaction \<mapsto> walletUpdate') \<rparr>;
                        d2 = update_brand_transaction (vi_transaction_id inp)
                               (\<lambda>t. t \<lparr> bt_status := Completed,
                                        bt_balance_after := newBalance,
                                        bt_processed_at := Some now,
                                        bt_metadata := (bt_metadata t)
                                          \<lparr> md_razorpay_payment_id := Some (vi_razorpay_payment_id inp) \<rparr> \<rparr>) d1
                    in (Inr \<lparr> vr_transaction_id = vi_transaction_id inp,
                              vr_tokens_credited = tokensToCredit,
                              vr_new_balance = newBalance,
                              vr_package_name = packageDisplayName \<rparr>, d2)) d0 of
               (Inr r, d') \<Rightarrow> (Inr r, d')
             | (Inl err, d') \<Rightarrow>
                 (Inl FailedToCreditTokens,
                  mark_failed (vi_transaction_id inp) (message err) (vi_razorpay_payment_id inp) d')))"

text \<open>
  The webhook. \<open>wp_json\<close> is \<open>JSON.stringify(payload)\<close> and \<open>wp_payment_entity\<close>
  is \<open>payload.payment?.entity\<close>, as the pair of its \<open>order_id\<close> and \<open>id\<close>.
\<close>

record webhook_payload =
  wp_json :: string
  wp_payment_entity :: "(string \<times> string) option"

record webhook_result =
  processed :: bool
  wr_message :: string

definition handleWebhook :: "env \<Rightarrow> timestamp \<Rightarrow> string \<Rightarrow> webhook_payload \<Rightarrow> string \<Rightarrow> db \<Rightarrow> webhook_result \<times> db" where
  "handleWebhook e now event payload signature d0 =
     (let webhookSecret = razorpay_webhook_secret e in
      if webhookSecret \<noteq> [] \<and> signature \<noteq> hmac_sha256 e webhookSecret (wp_json payload)
      then (\<lparr> processed = False, wr_message = ''Invalid signature'' \<rparr>, d0)
      else if event = ''payment.captured'' then
        (case wp_payment_entity payload of
           None \<Rightarrow> (\<lparr> processed = False, wr_message = ''No payment entity in payload'' \<rparr>, d0)
         | Some (orderId, paymentId) \<Rightarrow>
            (case find (\<lambda>t. bt_payment_gateway_id t = Some orderId \<and> bt_status t = Pending)
                    (brand_transactions d0) of
               None \<Rightarrow> (\<lparr> processed = False, wr_message = ''Transaction already processed'' \<rparr>, d0)
             | Some transaction \<Rightarrow>
                 let metadata = bt_metadata transaction;
                     tokensToCredit = tokens_of metadata;
                     packageName = or_str (md_package_name metadata) ''unknown''
                 in
                 (case in_transaction (\<lambda>d.
                     case brand_wallets d (bt_brand_id transaction) of
                       None \<Rightarrow> (Inl WalletNotFound, d)
                     | Some wallet \<Rightarrow>
                         let currentBalance = or_num (token_balance wallet) 0;
                             newBalance = currentBalance + tokensToCredit;
                             d1 = d \<lparr> brand_wallets := (brand_wallets d)(bt_brand_id transaction \<mapsto>
                                    wallet \<lparr> token_balance := newBalance,
                                             total_tokens_credited := total_tokens_credited wallet + tokensToCredit,
                                             current_package := packageName,
                                             package_activated_at := Some now,
                                             bw_last_transaction_at := Some now \<rparr>) \<rparr>;
                             d2 = update_brand_transaction (bt_id transaction)
                                    (\<lambda>t. t \<lparr> bt_status := Completed,
                                             bt_balance_after := newBalance,
                                             bt_processed_at := Some now,
                                             bt_metadata := (bt_metadata t)
                                               \<lparr> md_razorpay_payment_id := Some paymentId,
                                                 md_processed_via := Some ''webhook'' \<rparr> \<rparr>) d1
                         in (Inr (), d2)) d0 of
                    (Inr _, d') \<Rightarrow> (\<lparr> processed = True, wr_message = ''Payment processed successfully'' \<rparr>, d')
                  | (Inl err, d') \<Rightarrow> (\<lparr> processed = False, wr_message = message err \<rparr>, d'))))
      else (\<lparr> processed = False, wr_message = ''Event not handled'' \<rparr>, d0))"

section \<open>Withdrawal engine\<close>

record create_transaction_data =
  ct_user_id :: string
  ct_transaction_type :: string
  ct_amount :: money
  ct_reference_id :: "string option"
  ct_reference_type :: "string option"
  ct_payment_method :: "string option"
  ct_bank_account_id :: "string option"
  ct_external_transaction_id :: "string option"

definition createTransaction :: "create_transaction_data \<Rightarrow> db \<Rightarrow> transaction \<times> db" where
  "createTransaction data d =
     (let transaction = \<lparr> tx_id = fresh_id (map tx_id (transactions d)),
                           tx_user_id = ct_user_id data,
                           tx_transaction_type = ct_transaction_type data,
                           tx_amount = ct_amount data,
                           tx_balance_after = None,
                           tx_status = Pending,
                           tx_reference_type = ct_reference_type data,
                           tx_reference_id = ct_reference_id data,
                           tx_payment_method = ct_payment_method data,
                           tx_bank_account_id = ct_bank_account_id data,
                           tx_external_transaction_id = ct_external_transaction_id data,
                           tx_failure_reason = None,
                           tx_metadata = no_metadata,
                           tx_processed_at = None \<rparr>
      in (transaction, d \<lparr> transactions := transactions d @ [transaction] \<rparr>))"

definition getTransactionById :: "nat \<Rightarrow> db \<Rightarrow> transaction option" where
  "getTransactionById transactionId d = find (\<lambda>t. tx_id t = transactionId) (transactions d)"

text \<open>\<open>if (data?.external_transaction_id)\<close>: a missing or empty string is falsy.\<close>

definition truthy :: "string option \<Rightarrow> bool" where
  "truthy s = (case s of None \<Rightarrow> False | Some v \<Rightarrow> v \<noteq> [])"

definition updateTransactionStatus :: "timestamp \<Rightarrow> nat \<Rightarrow> status \<Rightarrow> string option \<Rightarrow> string option \<Rightarrow> db \<Rightarrow> db" where
  "updateTransactionStatus now transactionId st external_transaction_id failure_reason d =
     d \<lparr> transactions := map (\<lambda>t.
           if tx_id t = transactionId then
             (let t1 = t \<lparr> tx_status := st \<rparr>;
                  t2 = (if st = Completed then t1 \<lparr> tx_processed_at := Some now \<rparr> else t1);
                  t3 = (if truthy external_transaction_id
                        then t2 \<lparr> tx_external_transaction_id := external_transaction_id \<rparr> else t2);
                  t4 = (if truthy failure_reason
                        then t3 \<lparr> tx_failure_reason := failure_reason \<rparr> else t3)
              in t4)
           else t) (transactions d) \<rparr>"

text \<open>\<open>db('wallets').where('user_id', userId).update(...)\<close>: no row, no change.\<close>

definition update_wallet :: "string \<Rightarrow> (wallet \<Rightarrow> wallet) \<Rightarrow> db \<Rightarrow> db" where
  "update_wallet userId f d =
     (case wallets d userId of
        None \<Rightarrow> d
      | Some w \<Rightarrow> d \<lparr> wallets := (wallets d)(userId \<mapsto> f w) \<rparr>)"

definition requestWithdrawal :: "timestamp \<Rightarrow> string \<Rightarrow> money \<Rightarrow> string \<Rightarrow> db \<Rightarrow> (error + transaction) \<times> db" where
  "requestWithdrawal now userId amount bankAccountId d =
     (case find (\<lambda>a. ba_id a = bankAccountId \<and> ba_user_id a = userId) (bank_accounts d) of
        None \<Rightarrow> (Inl BankAccountNotFound, d)
      | Some bankAccount \<Rightarrow>
          if verification_status bankAccount \<noteq> Verified then (Inl BankAccountMustBeVerified, d)
          else
            (case wallets d userId of
               None \<Rightarrow> (Inl WalletNotFound, d)
             | Some wallet \<Rightarrow>
                 if balance wallet < amount then (Inl InsufficientBalance, d)
                 else
                   let (transaction, d1) = createTransaction
                          \<lparr> ct_user_id = userId,
                            ct_transaction_type = ''withdrawal'',
                            ct_amount = - amount,
                            ct_reference_id = None,
                            ct_reference_type = None,
                            ct_payment_method = Some ''bank_transfer'',
                            ct_bank_account_id = Some bankAccountId,
                            ct_external_transaction_id = None \<rparr> d;
                       d2 = update_wallet userId
                              (\<lambda>w. w \<lparr> balance := balance w - amount,
                                       pending_balance := pending_balance w + amount,
                                       last_transaction_at := Some now \<rparr>) d1
                   in (Inr transaction, d2)))"

definition processWithdrawal :: "timestamp \<Rightarrow> nat \<Rightarrow> bool \<Rightarrow> string option \<Rightarrow> string option \<Rightarrow> db \<Rightarrow> (error + transaction option) \<times> db" where
  "processWithdrawal now transactionId success externalTransactionId failureReason d =
     (case find (\<lambda>t. tx_id t = transactionId) (transactions d) of
        None \<Rightarrow> (Inl TransactionNotFound, d)
      | Some transaction \<Rightarrow>
          if tx_transaction_type transaction \<noteq> ''withdrawal'' then (Inl TransactionIsNotAWithdrawal, d)
          else if tx_status transaction \<noteq> Pending \<and> tx_status transaction \<noteq> Processing
          then (Inl TransactionCannotBeProcessed, d)
          else
            let amount = \<bar>tx_amount transaction\<bar>;
                d2 = (if success then
                        update_wallet (tx_user_id transaction)
                          (\<lambda>w. w \<lparr> pending_balance := pending_balance w - amount,
                                   total_withdrawals := total_withdrawals w + amount,
                                   last_transaction_at := Some now \<rparr>)
                          (updateTransactionStatus now transactionId Completed externalTransactionId None d)
                      else
                        update_wallet (tx_user_id transaction)
                          (\<lambda>w. w \<lparr> balance := balance w + amount,
                                   pending_balance := pending_balance w - amount,
                                   last_transaction_at := Some now \<rparr>)
                          (updateTransactionStatus now transactionId Failed None failureReason d))
            in (Inr (getTransactionById transactionId d2), d2))"

section \<open>Brand wallet accessor and creator unlock\<close>

definition getBrandByUserId :: "db \<Rightarrow> string \<Rightarrow> brand option" where
  "getBrandByUserId d userId = find (\<lambda>b. brand_user_id b = userId) (brands d)"

definition getFreeBrandPackage :: "db \<Rightarrow> package option" where
  "getFreeBrandPackage d =
     find (\<lambda>p. pkg_user_type p = ''brand'' \<and> pkg_price p = 0 \<and> pkg_is_active p)
       (sort_key pkg_sort_order (packages d))"

definition getPackageByName :: "db \<Rightarrow> string \<Rightarrow> string \<Rightarrow> package option" where
  "getPackageByName d userType name =
     find (\<lambda>p. pkg_user_type p = userType \<and> pkg_name p = name \<and> pkg_is_active p) (packages d)"

text \<open>
  \<open>getOrCreateBrandWallet\<close> returns the brand id, the wallet row and the wallet's current
  package. The branch for a unique-key violation on insert needs a second request running
  at the same time and is not part of the sequential model.
\<close>

definition getOrCreateBrandWallet :: "timestamp \<Rightarrow> string \<Rightarrow> db \<Rightarrow> (error + string \<times> brand_wallet \<times> package option) \<times> db" where
  "getOrCreateBrandWallet now userId d0 =
     (case getBrandByUserId d0 userId of
        None \<Rightarrow> (Inl NoBrandLinked, d0)
      | Some brand \<Rightarrow>
          let brandId = brand_id brand;
              (wallet, d2) =
                (case brand_wallets d0 brandId of
                   Some w \<Rightarrow> (w, d0)
                 | None \<Rightarrow>
                     let freePackage = getFreeBrandPackage d0;
                         tokens = (case freePackage of None \<Rightarrow> 0 | Some fp \<Rightarrow> pkg_tokens_included fp);
                         newWallet = \<lparr> bw_user_id = userId,
                                       token_balance = tokens,
                                       total_tokens_credited = tokens,
                                       total_tokens_debited = 0,
                                       escrow_balance = 0,
                                       escrow_on_hold = 0,
                                       total_escrow_deposited = 0,
                                       total_escrow_released = 0,
                                       total_escrow_refunded = 0,
                                       current_package = (case freePackage of None \<Rightarrow> ''none'' | Some fp \<Rightarrow> pkg_name fp),
                                       current_package_id = None,
                                       package_activated_at = (case freePackage of None \<Rightarrow> None | Some fp \<Rightarrow> Some now),
                                       package_expires_at = (case freePackage of None \<Rightarrow> None
                                                             | Some fp \<Rightarrow> expiry_after now (pkg_validity_days fp)),
                                       bw_last_transaction_at = (case freePackage of None \<Rightarrow> None | Some fp \<Rightarrow> Some now) \<rparr>;
                         d1 = d0 \<lparr> brand_wallets := (brand_wallets d0)(brandId \<mapsto> newWallet) \<rparr>;
                         d1' = (case freePackage of
                                  None \<Rightarrow> d1
                                | Some fp \<Rightarrow>
                                    if pkg_tokens_included fp > 0 then
                                      d1 \<lparr> brand_transactions := brand_transactions d1 @
                                        [\<lparr> bt_id = fresh_id (map bt_id (brand_transactions d1)),
                                           bt_brand_id = brandId,
                                           bt_user_id = userId,
                                           bt_transaction_type = ''token_credit'',
                                           bt_amount = pkg_tokens_included fp,
                                           bt_currency_type = ''token'',
                                           bt_balance_after = pkg_tokens_included fp,
                                           bt_reference_type = ''package'',
                                           bt_reference_id = Some (pkg_id fp),
                                           bt_payment_gateway_id = None,
                                           bt_status = Completed,
                                           bt_failure_reason = None,
                                           bt_metadata = no_metadata
                                             \<lparr> md_package_name := Some (pkg_name fp),
                                               md_package_display_name := Some (pkg_display_name fp),
                                               md_tokens_included := Some (pkg_tokens_included fp) \<rparr>,
                                           bt_processed_at = Some now \<rparr>] \<rparr>
                                    else d1)
                     in (newWallet, d1'));
              pkg = (if current_package wallet \<noteq> [] \<and> current_package wallet \<noteq> ''none''
                     then getPackageByName d2 ''brand'' (current_package wallet) else None)
          in (Inr (brandId, wallet, pkg), d2))"

record unlock_creator_input =
  ui_brand_user_id :: string
  ui_creator_id :: string

record unlock_creator_result =
  ur_unlock_id :: nat
  ur_creator_id :: string
  ur_tokens_spent :: money
  ur_remaining_token_balance :: money
  ur_unlocked_at :: timestamp

text \<open>
  The wallet is fetched (and, on first access, created) on the plain connection, so that
  write stays when the unlock's own storage transaction is rolled back. The three guards
  roll back and throw; the \<open>catch\<close> block then rolls back once more and rethrows. The
  model returns the guard's error and the store from before the storage transaction.
\<close>

definition unlockCreator :: "timestamp \<Rightarrow> unlock_creator_input \<Rightarrow> db \<Rightarrow> (error + unlock_creator_result) \<times> db" where
  "unlockCreator now inp d0 =
     (case getOrCreateBrandWallet now (ui_brand_user_id inp) d0 of
        (Inl err, d) \<Rightarrow> (Inl err, d)
      | (Inr (brandId, wallet, pkgopt), d) \<Rightarrow>
          let tokenBalance = token_balance wallet in
          (case pkgopt of
             None \<Rightarrow> (Inl NoActivePackage, d)
           | Some pkg \<Rightarrow>
               let reportTokenCost = or_num (pkg_report_token_cost pkg) 5 in
               in_transaction (\<lambda>t.
                 case find (\<lambda>u. uc_brand_id u = brandId \<and> uc_creator_id u = ui_creator_id inp)
                        (brand_unlocked_creators t) of
                   Some alreadyUnlocked \<Rightarrow> (Inl CreatorAlreadyUnlocked, t)
                 | None \<Rightarrow>
                    (case find (\<lambda>u. cu_id u = ui_creator_id inp) (ce_users t) of
                       None \<Rightarrow> (Inl CreatorNotFound, t)
                     | Some creator \<Rightarrow>
                         if tokenBalance < reportTokenCost
                         then (Inl (InsufficientTokenBalance reportTokenCost tokenBalance), t)
                         else
                           let newTokenBalance = tokenBalance - reportTokenCost;
                               t1 = (case brand_wallets t brandId of
                                       None \<Rightarrow> t
                                     | Some w \<Rightarrow> t \<lparr> brand_wallets := (brand_wallets t)(brandId \<mapsto>
                                         w \<lparr> token_balance := newTokenBalance,
                                             total_tokens_debited := total_tokens_debited w + reportTokenCost,
                                             bw_last_transaction_at := Some now \<rparr>) \<rparr>);
                               transaction = \<lparr> bt_id = fresh_id (map bt_id (brand_transactions t1)),
                                           bt_brand_id = brandId,
                                           bt_user_id = ui_brand_user_id inp,
                                           bt_transaction_type = ''creator_unlock'',
                                           bt_amount = reportTokenCost,
                                           bt_currency_type = ''token'',
                                           bt_balance_after = newTokenBalance,
                                           bt_reference_type = ''creator_unlock'',
                                           bt_reference_id = Some (ui_creator_id inp),
                                           bt_payment_gateway_id = None,
                                           bt_status = Completed,
                                           bt_failure_reason = None,
                                           bt_metadata = no_metadata
                                             \<lparr> md_package_id := Some (pkg_id pkg),
                                               md_package_name := Some (pkg_name pkg),
                                               md_creator_id := Some (ui_creator_id inp) \<rparr>,
                                           bt_processed_at = Some now \<rparr>;
                               t2 = t1 \<lparr> brand_transactions := brand_transactions t1 @ [transaction] \<rparr>;
                               unlockRecord = \<lparr> uc_id = fresh_id (map uc_id (brand_unlocked_creators t2)),
                                           uc_brand_id = brandId,
                                           uc_creator_id = ui_creator_id inp,
                                           uc_unlocked_by_user_id = ui_brand_user_id inp,
                                           uc_transaction_id = bt_id transaction,
                                           uc_tokens_spent = reportTokenCost,
                                           uc_package_id = pkg_id pkg,
                                           uc_package_name = pkg_name pkg,
                                           uc_unlocked_at = now \<rparr>;
                               t3 = t2 \<lparr> brand_unlocked_creators := brand_unlocked_creators t2 @ [unlockRecord] \<rparr>
                           in (Inr \<lparr> ur_unlock_id = uc_id unlockRecord,
                                     ur_creator_id = ui_creator_id inp,
                                     ur_tokens_spent = reportTokenCost,
                                     ur_remaining_token_balance = newTokenBalance,
                                     ur_unlocked_at = uc_unlocked_at unlockRecord \<rparr>, t3))) d))"

section \<open>Example states\<close>

text \<open>
  A small store used to run the operations on concrete inputs: brand \<open>b1\<close> (user
  \<open>u1\<close>) on the subscription package \<open>pro\<close> with three pending gateway orders, and
  creator \<open>c1\<close> with a verified bank account. The example keyed hash joins key and body.
\<close>

definition env_ex :: env where
  "env_ex = \<lparr> hmac_sha256 = (\<lambda>key body. key @ '':'' @ body),
              razorpay_key_secret = ''secret'', razorpay_webhook_secret = [] \<rparr>"

definition brand_wallet_ex :: brand_wallet where
  "brand_wallet_ex = \<lparr> bw_user_id = ''u1'', token_balance = 20, total_tokens_credited = 20,
     total_tokens_debited = 0, escrow_balance = 1000, escrow_on_hold = 500,
     total_escrow_deposited = 1500, total_escrow_released = 0, total_escrow_refunded = 0,
     current_package = ''pro'', current_package_id = Some ''pkg-pro'',
     package_activated_at = Some 1, package_expires_at = Some 100,
     bw_last_transaction_at = None \<rparr>"

definition pending_row :: "nat \<Rightarrow> string \<Rightarrow> string \<Rightarrow> money \<Rightarrow> string \<Rightarrow> metadata \<Rightarrow> brand_transaction" where
  "pending_row i ty cur amt order m = \<lparr> bt_id = i, bt_brand_id = ''b1'', bt_user_id = ''u1'',
     bt_transaction_type = ty, bt_amount = amt, bt_currency_type = cur,
     bt_balance_after = 0, bt_reference_type = ''package'', bt_reference_id = None,
     bt_payment_gateway_id = Some order, bt_status = Pending, bt_failure_reason = None,
     bt_metadata = m, bt_processed_at = None \<rparr>"

definition topup_snapshot :: "int \<Rightarrow> metadata" where
  "topup_snapshot n = no_metadata \<lparr> md_package_id := Some ''pkg-topup'',
     md_package_name := Some ''topup_50'', md_package_display_name := Some ''Topup 50'',
     md_package_type := Some ''topup'', md_tokens_included := Some n \<rparr>"

definition wallet_ex :: wallet where
  "wallet_ex = \<lparr> balance = 10000, pending_balance = 0, total_earnings = 10000,
     total_withdrawals = 0, last_transaction_at = None \<rparr>"

definition pro_package :: package where
  "pro_package = \<lparr> pkg_id = ''pkg-pro'', pkg_user_type = ''brand'',
     pkg_package_type = ''subscription'', pkg_name = ''pro'', pkg_display_name = ''Pro'',
     pkg_tokens_included = 100, pkg_price = 4999, pkg_report_token_cost = 5,
     pkg_validity_days = Some 30, pkg_is_active = True, pkg_sort_order = 2 \<rparr>"

definition db_ex :: db where
  "db_ex = \<lparr> brand_wallets = [''b1'' \<mapsto> brand_wallet_ex],
     brand_transactions =
       [pending_row 1 ''token_credit'' ''token'' 499 ''order_1'' (topup_snapshot 50),
        pending_row 2 ''escrow_deposit'' ''escrow'' 4000 ''order_2'' no_metadata,
        pending_row 3 ''token_credit'' ''token'' 499 ''order_3'' (topup_snapshot 0)],
     wallets = [''c1'' \<mapsto> wallet_ex],
     transactions = [],
     bank_accounts = [\<lparr> ba_id = ''ba1'', ba_user_id = ''c1'', ba_bank_name = ''HDFC'',
                        ba_account_number = ''000123456789'', verification_status = Verified \<rparr>],
     packages = [pro_package],
     brands = [\<lparr> brand_id = ''b1'', brand_user_id = ''u1'' \<rparr>],
     ce_users = [\<lparr> cu_id = ''c1'', cu_username = ''creator_one'' \<rparr>],
     brand_unlocked_creators = [] \<rparr>"

definition release_ex :: "money \<Rightarrow> release_escrow_input" where
  "release_ex a = \<lparr> ri_brand_id = ''b1'', ri_user_id = ''u1'', ri_amount = a,
     ri_campaign_id = ''camp1'', ri_application_id = ''app1'', ri_creator_id = ''c1'' \<rparr>"

definition hold_ex :: "money \<Rightarrow> hold_escrow_input" where
  "hold_ex a = \<lparr> hi_brand_id = ''b1'', hi_user_id = ''u1'', hi_amount = a,
     hi_campaign_id = ''camp1'' \<rparr>"

definition refund_ex :: "money \<Rightarrow> refund_escrow_input" where
  "refund_ex a = \<lparr> fi_brand_id = ''b1'', fi_user_id = ''u1'', fi_amount = a,
     fi_campaign_id = ''camp1'', fi_reason = ''campaign cancelled'' \<rparr>"

definition verify_ex :: "nat \<Rightarrow> string \<Rightarrow> string \<Rightarrow> verify_input" where
  "verify_ex i order payment = \<lparr> vi_razorpay_order_id = order, vi_razorpay_payment_id = payment,
     vi_razorpay_signature = ''secret:'' @ order @ ''|'' @ payment, vi_transaction_id = i \<rparr>"

definition webhook_ex :: webhook_payload where
  "webhook_ex = \<lparr> wp_json = ''{payment}'', wp_payment_entity = Some (''order_1'', ''pay_1'') \<rparr>"

definition unlock_ex :: unlock_creator_input where
  "unlock_ex = \<lparr> ui_brand_user_id = ''u1'', ui_creator_id = ''c1'' \<rparr>"

text \<open>The example store after creator \<open>c1\<close> asked for 5000 and the payout was confirmed.\<close>

definition withdrawn_ex :: db where
  "withdrawn_ex = snd (processWithdrawal 8 1 True (Some ''utr-1'') None
                         (snd (requestWithdrawal 7 ''c1'' 5000 ''ba1'' db_ex)))"

section \<open>Basic facts\<close>

lemmas ex_defs = env_ex_def brand_wallet_ex_def pending_row_def topup_snapshot_def
  wallet_ex_def pro_package_def db_ex_def no_metadata_def release_ex_def
  hold_ex_def refund_ex_def verify_ex_def webhook_ex_def unlock_ex_def

lemma or_num_zero [simp]: "or_num x 0 = x"
  by (simp add: or_num_def)

section \<open>Release\<close>

text \<open>
  C1, as the code has it. \<open>releaseEscrow\<close> rejects an amount that is not positive before
  it opens the storage transaction. For a positive amount covered by the brand's
  \<open>escrow_on_hold\<close> it succeeds: the brand's \<open>escrow_on_hold\<close> goes down and
  \<open>total_escrow_released\<close> goes up by the amount, the creator's \<open>balance\<close> and
  \<open>total_earnings\<close> go up by the amount (from zero when the creator had no wallet row),
  and exactly one row is appended to each transaction table, both carrying the amount and
  naming the other side. A release that fails leaves the whole store as it was.
\<close>

theorem release_conservation:
  "(brand_wallets d (ri_brand_id inp) = Some w \<and> 0 < ri_amount inp
      \<and> ri_amount inp \<le> escrow_on_hold w \<longrightarrow>
     (\<exists>res d'. releaseEscrow now inp d = (Inr res, d')
       \<and> (\<exists>w'. brand_wallets d' (ri_brand_id inp) = Some w'
             \<and> escrow_on_hold w' = escrow_on_hold w - ri_amount inp
             \<and> total_escrow_released w' = total_escrow_released w + ri_amount inp
             \<and> escrow_balance w' = escrow_balance w)
       \<and> (\<exists>cw'. wallets d' (ri_creator_id inp) = Some cw'
             \<and> balance cw' = balance (case wallets d (ri_creator_id inp) of
                                          None \<Rightarrow> new_wallet | Some cw \<Rightarrow> cw) + ri_amount inp
             \<and> total_earnings cw' = total_earnings (case wallets d (ri_creator_id inp) of
                                          None \<Rightarrow> new_wallet | Some cw \<Rightarrow> cw) + ri_amount inp)
       \<and> (\<exists>brow. brand_transactions d' = brand_transactions d @ [brow]
             \<and> bt_brand_id brow = ri_brand_id inp \<and> bt_amount brow = ri_amount inp
             \<and> bt_status brow = Completed
             \<and> md_creator_id (bt_metadata brow) = Some (ri_creator_id inp))
       \<and> (\<exists>crow. transactions d' = transactions d @ [crow]
             \<and> tx_user_id crow = ri_creator_id inp \<and> tx_amount crow = ri_amount inp
             \<and> tx_status crow = Completed
             \<and> md_brand_id (tx_metadata crow) = Some (ri_brand_id inp))))
   \<and> (\<forall>e d'. releaseEscrow now inp d = (Inl e, d') \<longrightarrow> d' = d)"
proof (intro conjI impI allI)
  assume "brand_wallets d (ri_brand_id inp) = Some w \<and> 0 < ri_amount inp
      \<and> ri_amount inp \<le> escrow_on_hold w"
  then show "\<exists>res d'. releaseEscrow now inp d = (Inr res, d')
       \<and> (\<exists>w'. brand_wallets d' (ri_brand_id inp) = Some w'
             \<and> escrow_on_hold w' = escrow_on_hold w - ri_amount inp
             \<and> total_escrow_released w' = total_escrow_released w + ri_amount inp
             \<and> escrow_balance w' = escrow_balance w)
       \<and> (\<exists>cw'. wallets d' (ri_creator_id inp) = Some cw'
             \<and> balance cw' = balance (case wallets d (ri_creator_id inp) of
                                          None \<Rightarrow> new_wallet | Some cw \<Rightarrow> cw) + ri_amount inp
             \<and> total_earnings cw' = total_earnings (case wallets d (ri_creator_id inp) of
                                          None \<Rightarrow> new_wallet | Some cw \<Rightarrow> cw) + ri_amount inp)
       \<and> (\<exists>brow. brand_transactions d' = brand_transactions d @ [brow]
             \<and> bt_brand_id brow = ri_brand_id inp \<and> bt_amount brow = ri_amount inp
             \<and> bt_status brow = Completed
             \<and> md_creator_id (bt_metadata brow) = Some (ri_creator_id inp))
       \<and> (\<exists>crow. transactions d' = transactions d @ [crow]
             \<and> tx_user_id crow = ri_creator_id inp \<and> tx_amount crow = ri_amount inp
             \<and> tx_status crow = Completed
             \<and> md_brand_id (tx_metadata crow) = Some (ri_brand_id inp))"
    by (cases "wallets d (ri_creator_id inp)")
       (simp_all add: releaseEscrow_def in_transaction_def Let_def no_metadata_def new_wallet_def)
next
  fix e d'
  assume "releaseEscrow now inp d = (Inl e, d')"
  then show "d' = d"
    by (auto simp: releaseEscrow_def in_transaction_def Let_def
             split: if_splits option.splits)
qed

theorem release_conservation_witness:
  "brand_wallets db_ex ''b1'' = Some brand_wallet_ex \<and> (0::int) < 200
     \<and> 200 \<le> escrow_on_hold brand_wallet_ex
   \<and> (\<exists>res d'. releaseEscrow 7 (release_ex 200) db_ex = (Inr res, d')
       \<and> (\<exists>w'. brand_wallets d' ''b1'' = Some w' \<and> escrow_on_hold w' = 300
             \<and> total_escrow_released w' = 200 \<and> escrow_balance w' = 1000)
       \<and> (\<exists>cw'. wallets d' ''c1'' = Some cw' \<and> balance cw' = 10200
             \<and> total_earnings cw' = 10200)
       \<and> (\<exists>brow. brand_transactions d' = brand_transactions db_ex @ [brow]
             \<and> bt_amount brow = 200 \<and> md_creator_id (bt_metadata brow) = Some ''c1'')
       \<and> (\<exists>crow. transactions d' = transactions db_ex @ [crow]
             \<and> tx_amount crow = 200 \<and> md_brand_id (tx_metadata crow) = Some ''b1''))
   \<and> fst (releaseEscrow 7 (release_ex 900) db_ex) = Inl (InsufficientEscrowOnHold 500 900)
   \<and> snd (releaseEscrow 7 (release_ex 900) db_ex) = db_ex"
proof -
  have hb: "brand_wallets db_ex ''b1'' = Some brand_wallet_ex"
    by (simp add: db_ex_def)
  have hw: "wallets db_ex ''c1'' = Some wallet_ex"
    by (simp add: db_ex_def)
  have ok: "\<exists>res d'. releaseEscrow 7 (release_ex 200) db_ex = (Inr res, d')
       \<and> (\<exists>w'. brand_wallets d' ''b1'' = Some w' \<and> escrow_on_hold w' = 300
             \<and> total_escrow_released w' = 200 \<and> escrow_balance w' = 1000)
       \<and> (\<exists>cw'. wallets d' ''c1'' = Some cw' \<and> balance cw' = 10200
             \<and> total_earnings cw' = 10200)
       \<and> (\<exists>brow. brand_transactions d' = brand_transactions db_ex @ [brow]
             \<and> bt_amount brow = 200 \<and> md_creator_id (bt_metadata brow) = Some ''c1'')
       \<and> (\<exists>crow. transactions d' = transactions db_ex @ [crow]
             \<and> tx_amount crow = 200 \<and> md_brand_id (tx_metadata crow) = Some ''b1'')"
    using release_conservation [of db_ex "release_ex 200" brand_wallet_ex 7] hb hw
    by (simp add: release_ex_def brand_wallet_ex_def wallet_ex_def) blast
  have err: "fst (releaseEscrow 7 (release_ex 900) db_ex) = Inl (InsufficientEscrowOnHold 500 900)"
    by (simp add: releaseEscrow_def in_transaction_def ex_defs)
  have same: "snd (releaseEscrow 7 (release_ex 900) db_ex) = db_ex"
    using release_conservation [of db_ex "release_ex 900" brand_wallet_ex 7] err
    by (metis prod.collapse)
  have "(0::int) < 200 \<and> 200 \<le> escrow_on_hold brand_wallet_ex"
    by (simp add: brand_wallet_ex_def)
  with hb ok err same show ?thesis by blast
qed

text \<open>
  C1 as stated quantifies over every amount covered by \<open>escrow_on_hold\<close>. With 500 on
  hold and amount 0 the release is rejected and no row is written.
\<close>

theorem release_zero_amount_counterexample:
  "ri_amount (release_ex 0) \<le> escrow_on_hold brand_wallet_ex
   \<and> brand_wallets db_ex (ri_brand_id (release_ex 0)) = Some brand_wallet_ex
   \<and> releaseEscrow 7 (release_ex 0) db_ex = (Inl AmountMustBeGreaterThanZero, db_ex)"
  by (simp add: releaseEscrow_def ex_defs)

section \<open>Hold and refund\<close>

lemma hold_error_unchanged: "holdEscrow now inp d = (Inl e, d') \<Longrightarrow> d' = d"
  by (auto simp: holdEscrow_def in_transaction_def Let_def split: if_splits option.splits)

lemma refund_error_unchanged: "refundEscrow now inp d = (Inl e, d') \<Longrightarrow> d' = d"
  by (auto simp: refundEscrow_def in_transaction_def Let_def split: if_splits option.splits)

lemma hold_not_positive:
  "hi_amount inp \<le> 0 \<Longrightarrow> holdEscrow now inp d = (Inl AmountMustBeGreaterThanZero, d)"
  by (simp add: holdEscrow_def)

lemma refund_not_positive:
  "fi_amount inp \<le> 0 \<Longrightarrow> refundEscrow now inp d = (Inl AmountMustBeGreaterThanZero, d)"
  by (simp add: refundEscrow_def)

lemma hold_insufficient:
  "brand_wallets d (hi_brand_id inp) = Some w \<Longrightarrow> 0 < hi_amount inp
   \<Longrightarrow> escrow_balance w < hi_amount inp
   \<Longrightarrow> holdEscrow now inp d
        = (Inl (InsufficientEscrowBalance (escrow_balance w) (hi_amount inp)), d)"
  by (simp add: holdEscrow_def in_transaction_def)

lemma hold_success:
  assumes "brand_wallets d (hi_brand_id inp) = Some w" "0 < hi_amount inp"
    "hi_amount inp \<le> escrow_balance w"
  shows "\<exists>res d'. holdEscrow now inp d = (Inr res, d')
     \<and> (\<exists>w'. brand_wallets d' (hi_brand_id inp) = Some w'
            \<and> escrow_balance w' = escrow_balance w - hi_amount inp
            \<and> escrow_on_hold w' = escrow_on_hold w + hi_amount inp)"
  using assms by (simp add: holdEscrow_def in_transaction_def Let_def)

lemma refund_success:
  assumes "brand_wallets d (fi_brand_id inp) = Some w" "0 < fi_amount inp"
    "fi_amount inp \<le> escrow_on_hold w"
  shows "\<exists>res d'. refundEscrow now inp d = (Inr res, d')
     \<and> (\<exists>w'. brand_wallets d' (fi_brand_id inp) = Some w'
            \<and> escrow_balance w' = escrow_balance w + fi_amount inp
            \<and> escrow_on_hold w' = escrow_on_hold w - fi_amount inp)"
  using assms by (simp add: refundEscrow_def in_transaction_def Let_def)

lemma hold_then_refund_succeeds:
  assumes w: "brand_wallets d (hi_brand_id h) = Some w"
    and b: "fi_brand_id r = hi_brand_id h" and a: "fi_amount r = hi_amount h"
    and le: "hi_amount h \<le> escrow_balance w" and nn: "0 \<le> escrow_on_hold w"
    and pos: "0 < hi_amount h"
  shows "\<exists>res d1 res2 d2 w2. holdEscrow t1 h d = (Inr res, d1)
     \<and> refundEscrow t2 r d1 = (Inr res2, d2)
     \<and> brand_wallets d2 (hi_brand_id h) = Some w2
     \<and> escrow_balance w2 = escrow_balance w \<and> escrow_on_hold w2 = escrow_on_hold w"
proof -
  from hold_success [OF w pos le, of t1] obtain res d1 w1 where
    h1: "holdEscrow t1 h d = (Inr res, d1)"
    and w1: "brand_wallets d1 (hi_brand_id h) = Some w1"
    and eb1: "escrow_balance w1 = escrow_balance w - hi_amount h"
    and oh1: "escrow_on_hold w1 = escrow_on_hold w + hi_amount h"
    by blast
  have w1': "brand_wallets d1 (fi_brand_id r) = Some w1" using w1 b by simp
  have pos': "0 < fi_amount r" using pos a by simp
  have le1: "fi_amount r \<le> escrow_on_hold w1" using oh1 nn a by simp
  from refund_success [OF w1' pos' le1, of t2] obtain res2 d2 w2 where
    h2: "refundEscrow t2 r d1 = (Inr res2, d2)"
    and w2: "brand_wallets d2 (fi_brand_id r) = Some w2"
    and eb2: "escrow_balance w2 = escrow_balance w1 + fi_amount r"
    and oh2: "escrow_on_hold w2 = escrow_on_hold w1 - fi_amount r"
    by blast
  have "escrow_balance w2 = escrow_balance w" "escrow_on_hold w2 = escrow_on_hold w"
    using eb2 oh2 eb1 oh1 a by simp_all
  with h1 h2 w2 b show ?thesis by auto
qed

lemma hold_then_refund_step:
  assumes w: "brand_wallets d (hi_brand_id h) = Some w"
    and b: "fi_brand_id r = hi_brand_id h" and a: "fi_amount r = hi_amount h"
    and le: "hi_amount h \<le> escrow_balance w" and nn: "0 \<le> escrow_on_hold w"
  shows "\<exists>w'. brand_wallets (hold_then_refund h r ts d) (hi_brand_id h) = Some w'
     \<and> escrow_balance w' = escrow_balance w \<and> escrow_on_hold w' = escrow_on_hold w"
proof (cases "0 < hi_amount h")
  case False
  then show ?thesis
    using w a by (simp add: hold_then_refund_def hold_not_positive refund_not_positive)
next
  case True
  from hold_then_refund_succeeds [OF w b a le nn True, of "fst ts" "snd ts"]
  show ?thesis by (auto simp: hold_then_refund_def)
qed

lemma hold_then_refund_cycles:
  assumes b: "fi_brand_id r = hi_brand_id h" and a: "fi_amount r = hi_amount h"
  shows "brand_wallets d (hi_brand_id h) = Some w \<Longrightarrow> hi_amount h \<le> escrow_balance w
     \<Longrightarrow> 0 \<le> escrow_on_hold w \<Longrightarrow>
     \<exists>w'. brand_wallets (fold (hold_then_refund h r) tss d) (hi_brand_id h) = Some w'
       \<and> escrow_balance w' = escrow_balance w \<and> escrow_on_hold w' = escrow_on_hold w"
proof (induction tss arbitrary: d w)
  case Nil
  then show ?case by simp
next
  case (Cons ts tss)
  from hold_then_refund_step [OF Cons.prems(1) b a Cons.prems(2) Cons.prems(3), of ts]
  obtain w1 where w1: "brand_wallets (hold_then_refund h r ts d) (hi_brand_id h) = Some w1"
    and eb: "escrow_balance w1 = escrow_balance w" and oh: "escrow_on_hold w1 = escrow_on_hold w"
    by blast
  from Cons.IH [OF w1] Cons.prems eb oh show ?case by simp
qed

text \<open>
  Hold, refund and release keep both escrow fields of every brand wallet non-negative
  (so does deposit verification, further below, provided no logged amount is negative).
\<close>

lemma escrow_nonneg_hold:
  "escrow_nonneg d \<Longrightarrow> escrow_nonneg (snd (holdEscrow now inp d))"
  by (auto simp: escrow_nonneg_def holdEscrow_def in_transaction_def Let_def
           split: option.splits if_splits)

lemma escrow_nonneg_refund:
  "escrow_nonneg d \<Longrightarrow> escrow_nonneg (snd (refundEscrow now inp d))"
  by (auto simp: escrow_nonneg_def refundEscrow_def in_transaction_def Let_def
           split: option.splits if_splits)

lemma escrow_nonneg_release:
  "escrow_nonneg d \<Longrightarrow> escrow_nonneg (snd (releaseEscrow now inp d))"
  by (auto simp: escrow_nonneg_def releaseEscrow_def in_transaction_def Let_def
           split: option.splits if_splits)

text \<open>
  C4. Take a brand wallet whose \<open>escrow_on_hold\<close> is not negative (the data model's
  invariant, kept by the escrow operations) and an amount covered by \<open>escrow_balance\<close>.
  A hold of the amount followed by a refund of the same amount to the same brand leaves
  \<open>escrow_balance\<close> and \<open>escrow_on_hold\<close> at their values before the hold, and so
  does any number of such cycles. For a positive amount both calls of a cycle succeed; for an amount that is not
  positive both are rejected and nothing moves.
\<close>

theorem hold_refund_round_trip:
  assumes "brand_wallets d (hi_brand_id h) = Some w"
    and "fi_brand_id r = hi_brand_id h" and "fi_amount r = hi_amount h"
    and "hi_amount h \<le> escrow_balance w" and "0 \<le> escrow_on_hold w"
  shows "(\<exists>w'. brand_wallets (fold (hold_then_refund h r) tss d) (hi_brand_id h) = Some w'
            \<and> escrow_balance w' = escrow_balance w \<and> escrow_on_hold w' = escrow_on_hold w)
     \<and> (0 < hi_amount h \<longrightarrow>
          (\<exists>res d1 res2 d2 w2. holdEscrow t1 h d = (Inr res, d1)
             \<and> refundEscrow t2 r d1 = (Inr res2, d2)
             \<and> brand_wallets d2 (hi_brand_id h) = Some w2
             \<and> escrow_balance w2 = escrow_balance w \<and> escrow_on_hold w2 = escrow_on_hold w))"
  using hold_then_refund_cycles [OF assms(2,3,1,4,5)]
    hold_then_refund_succeeds [OF assms(1,2,3,4,5)]
  by blast

theorem hold_refund_round_trip_witness:
  "brand_wallets db_ex ''b1'' = Some brand_wallet_ex
   \<and> (300::int) \<le> escrow_balance brand_wallet_ex \<and> 0 \<le> escrow_on_hold brand_wallet_ex
   \<and> (\<exists>w'. brand_wallets
               (fold (hold_then_refund (hold_ex 300) (refund_ex 300)) [(1, 2), (3, 4)] db_ex)
               ''b1'' = Some w'
         \<and> escrow_balance w' = 1000 \<and> escrow_on_hold w' = 500)
   \<and> (\<exists>res d1 res2 d2 w2. holdEscrow 1 (hold_ex 300) db_ex = (Inr res, d1)
         \<and> refundEscrow 2 (refund_ex 300) d1 = (Inr res2, d2)
         \<and> brand_wallets d2 ''b1'' = Some w2
         \<and> escrow_balance w2 = 1000 \<and> escrow_on_hold w2 = 500)"
proof -
  have hb: "brand_wallets db_ex (hi_brand_id (hold_ex 300)) = Some brand_wallet_ex"
    by (simp add: db_ex_def hold_ex_def)
  have b: "fi_brand_id (refund_ex 300) = hi_brand_id (hold_ex 300)"
    and a: "fi_amount (refund_ex 300) = hi_amount (hold_ex 300)"
    and le: "hi_amount (hold_ex 300) \<le> escrow_balance brand_wallet_ex"
    and nn: "0 \<le> escrow_on_hold brand_wallet_ex"
    by (simp_all add: hold_ex_def refund_ex_def brand_wallet_ex_def)
  have pos: "0 < hi_amount (hold_ex 300)"
    by (simp add: hold_ex_def)
  have v: "hi_brand_id (hold_ex 300) = ''b1''" "escrow_balance brand_wallet_ex = 1000"
    "escrow_on_hold brand_wallet_ex = 500"
    by (simp_all add: hold_ex_def brand_wallet_ex_def)
  from hold_refund_round_trip [OF hb b a le nn, of "[(1, 2), (3, 4)]" 1 2] pos
  show ?thesis
    unfolding v using hb [unfolded v] by simp
qed

section \<open>Withdrawals\<close>

lemma fresh_id_greater: "x \<in> set ids \<Longrightarrow> x < fresh_id ids"
proof -
  assume "x \<in> set ids"
  then have "x \<le> Max (set (0 # ids))" by (intro Max_ge) auto
  also have "Max (set (0 # ids)) = fold max ids 0" by (rule Max.set_eq_fold)
  finally show ?thesis by (simp add: fresh_id_def)
qed

lemma find_append_none: "\<forall>x\<in>set xs. \<not> P x \<Longrightarrow> find P (xs @ ys) = find P ys"
  by (induction xs) auto

lemma find_fresh_tx:
  "tx_id t = fresh_id (map tx_id xs)
   \<Longrightarrow> find (\<lambda>r. tx_id r = fresh_id (map tx_id xs)) (xs @ [t]) = Some t"
proof -
  assume eq: "tx_id t = fresh_id (map tx_id xs)"
  have "\<forall>x\<in>set xs. tx_id x \<noteq> fresh_id (map tx_id xs)"
    using fresh_id_greater [of _ "map tx_id xs"] by fastforce
  then show ?thesis using eq by (simp add: find_append_none)
qed

lemma find_map_update:
  "(\<And>t. tx_id (g t) = tx_id t) \<Longrightarrow>
   find (\<lambda>t. tx_id t = i) (map (\<lambda>t. if tx_id t = i then g t else t) xs)
     = map_option g (find (\<lambda>t. tx_id t = i) xs)"
  by (induction xs) auto

lemma getTransactionById_updateTransactionStatus:
  "getTransactionById i (updateTransactionStatus now i st ext reason d)
    = map_option (\<lambda>t. let t1 = t \<lparr> tx_status := st \<rparr>;
                  t2 = (if st = Completed then t1 \<lparr> tx_processed_at := Some now \<rparr> else t1);
                  t3 = (if truthy ext
                        then t2 \<lparr> tx_external_transaction_id := ext \<rparr> else t2);
                  t4 = (if truthy reason
                        then t3 \<lparr> tx_failure_reason := reason \<rparr> else t3)
              in t4) (getTransactionById i d)"
  unfolding getTransactionById_def updateTransactionStatus_def
  by (simp add: find_map_update Let_def)

lemma wallets_updateTransactionStatus [simp]:
  "wallets (updateTransactionStatus now i st ext reason d) = wallets d"
  by (simp add: updateTransactionStatus_def)

lemma transactions_update_wallet [simp]:
  "transactions (update_wallet u f d) = transactions d"
  by (simp add: update_wallet_def split: option.splits)

lemma getTransactionById_update_wallet [simp]:
  "getTransactionById i (update_wallet u f d) = getTransactionById i d"
  by (simp add: getTransactionById_def)

lemma wallets_update_wallet:
  "wallets d u = Some w \<Longrightarrow> wallets (update_wallet u f d) u = Some (f w)"
  by (simp add: update_wallet_def)

lemma request_success:
  assumes acct: "find (\<lambda>a. ba_id a = bid \<and> ba_user_id a = u) (bank_accounts d) = Some acct"
    and ver: "verification_status acct = Verified"
    and w: "wallets d u = Some w" and le: "amount \<le> balance w"
  shows "\<exists>t d1. requestWithdrawal now u amount bid d = (Inr t, d1)
     \<and> tx_status t = Pending \<and> tx_amount t = - amount \<and> tx_user_id t = u
     \<and> tx_transaction_type t = ''withdrawal'' \<and> tx_balance_after t = None
     \<and> transactions d1 = transactions d @ [t]
     \<and> getTransactionById (tx_id t) d1 = Some t
     \<and> wallets d1 u = Some (w \<lparr> balance := balance w - amount,
                                  pending_balance := pending_balance w + amount,
                                  last_transaction_at := Some now \<rparr>)"
  using assms
  by (simp add: requestWithdrawal_def createTransaction_def Let_def update_wallet_def
      getTransactionById_def find_fresh_tx)

lemma process_pending:
  assumes t: "getTransactionById i d = Some t"
    and ty: "tx_transaction_type t = ''withdrawal''"
    and st: "tx_status t = Pending"
    and w: "wallets d (tx_user_id t) = Some w"
  shows "\<exists>t' d2. processWithdrawal now i success ext reason d = (Inr (Some t'), d2)
     \<and> tx_status t' = (if success then Completed else Failed)
     \<and> tx_transaction_type t' = ''withdrawal''
     \<and> tx_balance_after t' = tx_balance_after t
     \<and> getTransactionById i d2 = Some t'
     \<and> wallets d2 (tx_user_id t) =
         Some (if success
               then w \<lparr> pending_balance := pending_balance w - \<bar>tx_amount t\<bar>,
                        total_withdrawals := total_withdrawals w + \<bar>tx_amount t\<bar>,
                        last_transaction_at := Some now \<rparr>
               else w \<lparr> balance := balance w + \<bar>tx_amount t\<bar>,
                        pending_balance := pending_balance w - \<bar>tx_amount t\<bar>,
                        last_transaction_at := Some now \<rparr>)"
  using assms
  by (simp add: processWithdrawal_def getTransactionById_def [symmetric] Let_def
      getTransactionById_updateTransactionStatus wallets_update_wallet)

lemma process_settled:
  assumes t: "getTransactionById i d = Some t"
    and ty: "tx_transaction_type t = ''withdrawal''"
    and st: "tx_status t = Completed \<or> tx_status t = Failed"
  shows "processWithdrawal now i success ext reason d = (Inl TransactionCannotBeProcessed, d)"
  using assms
  by (auto simp: processWithdrawal_def getTransactionById_def [symmetric])


text \<open>
  C7. A creator with a verified bank account of their own asks to withdraw an amount that
  is not negative and is covered by \<open>balance\<close>. The request reserves the amount
  (\<open>balance\<close> down, \<open>pending_balance\<close> up) under a pending transaction. Processing
  that transaction with \<open>success = false\<close> marks it failed and gives \<open>balance\<close> and
  \<open>pending_balance\<close> their values from before the request; processing it with
  \<open>success = true\<close> marks it completed, takes the amount out of \<open>pending_balance\<close> and adds
  it to \<open>total_withdrawals\<close>. Either way a further attempt to process the transaction is
  refused, so the reservation is resolved once. The witness is the scenario of the
  specification: balance 10000, withdrawal 5000.
\<close>

theorem withdrawal_reversal:
  assumes acct: "find (\<lambda>a. ba_id a = bid \<and> ba_user_id a = u) (bank_accounts d) = Some acct"
    and ver: "verification_status acct = Verified"
    and w: "wallets d u = Some w" and nn: "0 \<le> amount" and le: "amount \<le> balance w"
  shows "\<exists>t d1. requestWithdrawal now u amount bid d = (Inr t, d1) \<and> tx_status t = Pending
     \<and> (\<exists>w1. wallets d1 u = Some w1 \<and> balance w1 = balance w - amount
            \<and> pending_balance w1 = pending_balance w + amount)
     \<and> (\<exists>t' d2 w2. processWithdrawal now' (tx_id t) False ext reason d1 = (Inr (Some t'), d2)
            \<and> tx_status t' = Failed \<and> wallets d2 u = Some w2
            \<and> balance w2 = balance w \<and> pending_balance w2 = pending_balance w
            \<and> total_withdrawals w2 = total_withdrawals w
            \<and> processWithdrawal now'' (tx_id t) again ext' reason' d2
                 = (Inl TransactionCannotBeProcessed, d2))
     \<and> (\<exists>t' d2 w2. processWithdrawal now' (tx_id t) True ext reason d1 = (Inr (Some t'), d2)
            \<and> tx_status t' = Completed \<and> wallets d2 u = Some w2
            \<and> balance w2 = balance w - amount \<and> pending_balance w2 = pending_balance w
            \<and> total_withdrawals w2 = total_withdrawals w + amount
            \<and> processWithdrawal now'' (tx_id t) again ext' reason' d2
                 = (Inl TransactionCannotBeProcessed, d2))"
proof -
  from request_success [OF acct ver w le, of now] obtain t d1 where
    r: "requestWithdrawal now u amount bid d = (Inr t, d1)"
    and st: "tx_status t = Pending" and am: "tx_amount t = - amount" and us: "tx_user_id t = u"
    and ty: "tx_transaction_type t = ''withdrawal''"
    and g: "getTransactionById (tx_id t) d1 = Some t"
    and w1: "wallets d1 u = Some (w \<lparr> balance := balance w - amount,
                                  pending_balance := pending_balance w + amount,
                                  last_transaction_at := Some now \<rparr>)"
    by blast
  have abs: "\<bar>tx_amount t\<bar> = amount" using am nn by simp
  have w1': "wallets d1 (tx_user_id t) = Some (w \<lparr> balance := balance w - amount,
                                  pending_balance := pending_balance w + amount,
                                  last_transaction_at := Some now \<rparr>)"
    using w1 us by simp
  have settle: "\<exists>t' d2 w2. processWithdrawal now' (tx_id t) s ext reason d1 = (Inr (Some t'), d2)
            \<and> tx_status t' = (if s then Completed else Failed) \<and> wallets d2 u = Some w2
            \<and> balance w2 = (if s then balance w - amount else balance w)
            \<and> pending_balance w2 = pending_balance w
            \<and> total_withdrawals w2 = (if s then total_withdrawals w + amount else total_withdrawals w)
            \<and> processWithdrawal now'' (tx_id t) again ext' reason' d2
                 = (Inl TransactionCannotBeProcessed, d2)" for s
  proof -
    from process_pending [OF g ty st w1', of now' s ext reason] obtain t' d2 where
      p: "processWithdrawal now' (tx_id t) s ext reason d1 = (Inr (Some t'), d2)"
      and st': "tx_status t' = (if s then Completed else Failed)"
      and ty': "tx_transaction_type t' = ''withdrawal''"
      and g': "getTransactionById (tx_id t) d2 = Some t'"
      and w2: "wallets d2 (tx_user_id t) =
         Some (if s
               then w \<lparr> balance := balance w - amount,
                        pending_balance := pending_balance w + amount,
                        last_transaction_at := Some now \<rparr>
                      \<lparr> pending_balance := pending_balance w + amount - \<bar>tx_amount t\<bar>,
                        total_withdrawals := total_withdrawals w + \<bar>tx_amount t\<bar>,
                        last_transaction_at := Some now' \<rparr>
               else w \<lparr> balance := balance w - amount,
                        pending_balance := pending_balance w + amount,
                        last_transaction_at := Some now \<rparr>
                      \<lparr> balance := balance w - amount + \<bar>tx_amount t\<bar>,
                        pending_balance := pending_balance w + amount - \<bar>tx_amount t\<bar>,
                        last_transaction_at := Some now' \<rparr>)"
      by (auto simp del: abs_minus)
    have settled: "tx_status t' = Completed \<or> tx_status t' = Failed" using st' by simp
    from process_settled [OF g' ty' settled, of now'' again ext' reason']
    have again: "processWithdrawal now'' (tx_id t) again ext' reason' d2
                 = (Inl TransactionCannotBeProcessed, d2)" .
    show ?thesis
      using p st' w2 again us abs by (cases s) auto
  qed
  from settle [of False] settle [of True] r st w1 show ?thesis
    by (auto simp del: abs_minus)
qed

theorem withdrawal_reversal_witness:
  "wallets db_ex ''c1'' = Some wallet_ex \<and> balance wallet_ex = 10000
   \<and> pending_balance wallet_ex = 0
   \<and> (\<exists>t d1. requestWithdrawal 7 ''c1'' 5000 ''ba1'' db_ex = (Inr t, d1) \<and> tx_status t = Pending
     \<and> (\<exists>w1. wallets d1 ''c1'' = Some w1 \<and> balance w1 = 5000 \<and> pending_balance w1 = 5000)
     \<and> (\<exists>t' d2 w2. processWithdrawal 8 (tx_id t) False None (Some ''bank rejected'') d1
                       = (Inr (Some t'), d2)
            \<and> tx_status t' = Failed \<and> wallets d2 ''c1'' = Some w2
            \<and> balance w2 = 10000 \<and> pending_balance w2 = 0))"
proof -
  have acct: "find (\<lambda>a. ba_id a = ''ba1'' \<and> ba_user_id a = ''c1'') (bank_accounts db_ex)
       = Some \<lparr> ba_id = ''ba1'', ba_user_id = ''c1'', ba_bank_name = ''HDFC'',
                 ba_account_number = ''000123456789'', verification_status = Verified \<rparr>"
    by (simp add: db_ex_def)
  have hw: "wallets db_ex ''c1'' = Some wallet_ex"
    by (simp add: db_ex_def)
  have v: "balance wallet_ex = 10000" "pending_balance wallet_ex = 0"
    by (simp_all add: wallet_ex_def)
  from withdrawal_reversal [OF acct _ hw, of 5000 7 8 None "Some ''bank rejected''" 9 True None None]
  have "\<exists>t d1. requestWithdrawal 7 ''c1'' 5000 ''ba1'' db_ex = (Inr t, d1) \<and> tx_status t = Pending
     \<and> (\<exists>w1. wallets d1 ''c1'' = Some w1 \<and> balance w1 = 5000 \<and> pending_balance w1 = 5000)
     \<and> (\<exists>t' d2 w2. processWithdrawal 8 (tx_id t) False None (Some ''bank rejected'') d1
                       = (Inr (Some t'), d2)
            \<and> tx_status t' = Failed \<and> wallets d2 ''c1'' = Some w2
            \<and> balance w2 = 10000 \<and> pending_balance w2 = 0)"
    unfolding v by simp blast
  with hw v show ?thesis by blast
qed

text \<open>
  The rejections of \<open>requestWithdrawal\<close>: a bank account that is missing or belongs to
  someone else, one that is not verified, and a balance below the amount. A rejected
  request writes nothing.
\<close>

lemma requestWithdrawal_error_unchanged:
  "requestWithdrawal now u amount bid d = (Inl err, d') \<Longrightarrow> d' = d"
  by (auto simp: requestWithdrawal_def Let_def split: option.splits if_splits prod.splits)

lemma requestWithdrawal_rejections:
  "find (\<lambda>a. ba_id a = bid \<and> ba_user_id a = u) (bank_accounts d) = None
     \<Longrightarrow> requestWithdrawal now u amount bid d = (Inl BankAccountNotFound, d)"
  "find (\<lambda>a. ba_id a = bid \<and> ba_user_id a = u) (bank_accounts d) = Some acct
     \<Longrightarrow> verification_status acct \<noteq> Verified
     \<Longrightarrow> requestWithdrawal now u amount bid d = (Inl BankAccountMustBeVerified, d)"
  "find (\<lambda>a. ba_id a = bid \<and> ba_user_id a = u) (bank_accounts d) = Some acct
     \<Longrightarrow> verification_status acct = Verified \<Longrightarrow> wallets d u = Some w
     \<Longrightarrow> balance w < amount
     \<Longrightarrow> requestWithdrawal now u amount bid d = (Inl InsufficientBalance, d)"
  by (simp_all add: requestWithdrawal_def)

text \<open>
  The scenario of the specification for an uncovered hold: with 1000 available, a hold of
  5000 is rejected and the store is unchanged.
\<close>

lemma hold_insufficient_scenario:
  "holdEscrow 7 (hold_ex 5000) db_ex = (Inl (InsufficientEscrowBalance 1000 5000), db_ex)"
  by (simp add: holdEscrow_def in_transaction_def ex_defs)

text \<open>
  C2 at a failing input. \<open>requestWithdrawal\<close> has no check that the amount is positive
  (hold, release and refund have one). For amount \<open>-100\<close> the test
  \<open>balance < amount\<close> passes, the call succeeds, \<open>balance\<close> grows by 100 and
  \<open>pending_balance\<close> becomes \<open>-100\<close>.
\<close>

theorem requestWithdrawal_negative_amount:
  "map_option balance (wallets db_ex ''c1'') = Some 10000
   \<and> map_option pending_balance (wallets db_ex ''c1'') = Some 0
   \<and> \<not> isl (fst (requestWithdrawal 7 ''c1'' (- 100) ''ba1'' db_ex))
   \<and> map_option balance (wallets (snd (requestWithdrawal 7 ''c1'' (- 100) ''ba1'' db_ex)) ''c1'')
       = Some 10100
   \<and> map_option pending_balance
        (wallets (snd (requestWithdrawal 7 ''c1'' (- 100) ''ba1'' db_ex)) ''c1'') = Some (- 100)"
  by (simp add: requestWithdrawal_def createTransaction_def update_wallet_def db_ex_def
      wallet_ex_def Let_def)

text \<open>
  C6 at a failing input. \<open>requestWithdrawal\<close> compares the amount with no minimum: a
  withdrawal of 1 is accepted, reserved and logged as pending.
\<close>

theorem requestWithdrawal_below_minimum:
  "\<not> isl (fst (requestWithdrawal 7 ''c1'' 1 ''ba1'' db_ex))
   \<and> map_option balance (wallets (snd (requestWithdrawal 7 ''c1'' 1 ''ba1'' db_ex)) ''c1'')
       = Some 9999
   \<and> map_option pending_balance
        (wallets (snd (requestWithdrawal 7 ''c1'' 1 ''ba1'' db_ex)) ''c1'') = Some 1
   \<and> map tx_status (transactions (snd (requestWithdrawal 7 ''c1'' 1 ''ba1'' db_ex))) = [Pending]
   \<and> map tx_amount (transactions (snd (requestWithdrawal 7 ''c1'' 1 ''ba1'' db_ex))) = [- 1]"
  by (simp add: requestWithdrawal_def createTransaction_def update_wallet_def db_ex_def
      wallet_ex_def Let_def)


section \<open>Verification of gateway payments\<close>

lemma find_pending_after_update:
  "(\<And>t. bt_status (f t) \<noteq> Pending) \<Longrightarrow>
   find_pending (update_brand_transaction i f d) i order = None"
  by (auto simp: find_pending_def update_brand_transaction_def find_None_iff)

lemma find_pending_brand_wallets [simp]:
  "find_pending (d \<lparr> brand_wallets := m \<rparr>) i order = find_pending d i order"
  by (simp add: find_pending_def)

lemma brand_wallets_update_brand_transaction [simp]:
  "brand_wallets (update_brand_transaction i f d) = brand_wallets d"
  by (simp add: update_brand_transaction_def)

lemma find_pending_in_set:
  "find_pending d i order = Some t \<Longrightarrow> t \<in> set (brand_transactions d) \<and> bt_id t = i
     \<and> bt_payment_gateway_id t = Some order \<and> bt_status t = Pending"
  by (auto simp: find_pending_def find_Some_iff)

lemma updated_rows:
  "r \<in> set (brand_transactions (update_brand_transaction i f d)) \<Longrightarrow> bt_id r = i
   \<Longrightarrow> (\<And>t. bt_id (f t) = bt_id t)
   \<Longrightarrow> \<exists>t\<in>set (brand_transactions d). bt_id t = i \<and> r = f t"
  by (auto simp: update_brand_transaction_def split: if_splits)

lemma updated_row_exists:
  "t \<in> set (brand_transactions d) \<Longrightarrow> bt_id t = i
   \<Longrightarrow> f t \<in> set (brand_transactions (update_brand_transaction i f d))"
  by (auto simp: update_brand_transaction_def)

lemma verifyRecharge_success:
  assumes "verifyRecharge e now inp d = (Inr r, d1)"
  shows "\<exists>t w. find_pending d (vi_transaction_id inp) (vi_razorpay_order_id inp) = Some t
     \<and> verifyPaymentSignature e (vi_razorpay_order_id inp) (vi_razorpay_payment_id inp)
          (vi_razorpay_signature inp)
     \<and> 0 < tokens_of (bt_metadata t)
     \<and> brand_wallets d (bt_brand_id t) = Some w
     \<and> vr_tokens_credited r = tokens_of (bt_metadata t)
     \<and> vr_new_balance r = token_balance w + tokens_of (bt_metadata t)
     \<and> d1 = update_brand_transaction (vi_transaction_id inp)
              (\<lambda>t'. t' \<lparr> bt_status := Completed,
                         bt_balance_after := token_balance w + tokens_of (bt_metadata t),
                         bt_processed_at := Some now,
                         bt_metadata := (bt_metadata t')
                            \<lparr> md_razorpay_payment_id := Some (vi_razorpay_payment_id inp) \<rparr> \<rparr>)
              (d \<lparr> brand_wallets := (brand_wallets d)(bt_brand_id t \<mapsto>
                 (if or_str (md_package_type (bt_metadata t)) ''subscription'' = ''subscription''
                  then w \<lparr> token_balance := token_balance w + tokens_of (bt_metadata t),
                           total_tokens_credited := total_tokens_credited w + tokens_of (bt_metadata t),
                           bw_last_transaction_at := Some now,
                           current_package := or_str (md_package_name (bt_metadata t)) ''unknown'',
                           current_package_id := unless_undefined (md_package_id (bt_metadata t)) (current_package_id w),
                           package_activated_at := Some now,
                           package_expires_at := expiry_after now (md_validity_days (bt_metadata t)) \<rparr>
                  else w \<lparr> token_balance := token_balance w + tokens_of (bt_metadata t),
                           total_tokens_credited := total_tokens_credited w + tokens_of (bt_metadata t),
                           bw_last_transaction_at := Some now \<rparr>)) \<rparr>)"
  using assms
  by (auto simp: verifyRecharge_def in_transaction_def Let_def
           split: option.splits if_splits)

lemma verifyEscrowDeposit_success:
  assumes "verifyEscrowDeposit e now inp d = (Inr r, d1)"
  shows "\<exists>t w. find_pending d (vi_transaction_id inp) (vi_razorpay_order_id inp) = Some t
     \<and> verifyPaymentSignature e (vi_razorpay_order_id inp) (vi_razorpay_payment_id inp)
          (vi_razorpay_signature inp)
     \<and> brand_wallets d (bt_brand_id t) = Some w
     \<and> ve_amount_credited r = bt_amount t
     \<and> ve_new_balance r = escrow_balance w + bt_amount t
     \<and> d1 = update_brand_transaction (vi_transaction_id inp)
              (\<lambda>t'. t' \<lparr> bt_status := Completed,
                         bt_balance_after := escrow_balance w + bt_amount t,
                         bt_processed_at := Some now,
                         bt_metadata := (bt_metadata t')
                            \<lparr> md_razorpay_payment_id := Some (vi_razorpay_payment_id inp) \<rparr> \<rparr>)
              (d \<lparr> brand_wallets := (brand_wallets d)(bt_brand_id t \<mapsto>
                  w \<lparr> escrow_balance := escrow_balance w + bt_amount t,
                      total_escrow_deposited := total_escrow_deposited w + bt_amount t,
                      bw_last_transaction_at := Some now \<rparr>) \<rparr>)"
  using assms
  by (auto simp: verifyEscrowDeposit_def in_transaction_def Let_def
           split: option.splits if_splits)

lemma verifyRecharge_not_pending:
  "find_pending d (vi_transaction_id inp) (vi_razorpay_order_id inp) = None
   \<Longrightarrow> verifyRecharge e now inp d = (Inl TransactionNotFoundOrAlreadyProcessed, d)"
  by (simp add: verifyRecharge_def)

lemma verifyEscrowDeposit_not_pending:
  "find_pending d (vi_transaction_id inp) (vi_razorpay_order_id inp) = None
   \<Longrightarrow> verifyEscrowDeposit e now inp d = (Inl TransactionNotFoundOrAlreadyProcessed, d)"
  by (simp add: verifyEscrowDeposit_def)


lemma escrow_nonneg_verifyEscrowDeposit:
  "escrow_nonneg d \<Longrightarrow> \<forall>t\<in>set (brand_transactions d). 0 \<le> bt_amount t
   \<Longrightarrow> escrow_nonneg (snd (verifyEscrowDeposit e now inp d))"
  by (auto simp: escrow_nonneg_def verifyEscrowDeposit_def in_transaction_def Let_def
             update_brand_transaction_def
           dest!: find_pending_in_set
           split: option.splits if_splits)

lemma completed_after_update:
  assumes "row \<in> set (brand_transactions (update_brand_transaction i f d))" "bt_id row = i"
    and "\<And>t. bt_id (f t) = bt_id t" and "\<And>t. P (f t)"
  shows "P row"
  using updated_rows [OF assms(1,2,3)] assms(4) by auto

text \<open>
  C3. When a call of \<open>verifyRecharge\<close> (or \<open>verifyEscrowDeposit\<close>) succeeds, it found a
  pending transaction under the given id and order reference, it credited the brand's
  \<open>token_balance\<close> (or \<open>escrow_balance\<close>) once by the amount it reports, and every row
  under that id is now completed. Any later verify call with the same transaction id, on
  either function and whatever else it passes, fails with \<open>Transaction not found or
  already processed\<close> and leaves the store as it is.
\<close>

theorem verify_twice_credits_once:
  "(verifyRecharge e now inp d = (Inr r, d1) \<and> vi_transaction_id inp' = vi_transaction_id inp \<longrightarrow>
      (\<exists>t w. find_pending d (vi_transaction_id inp) (vi_razorpay_order_id inp) = Some t
           \<and> brand_wallets d (bt_brand_id t) = Some w
           \<and> map_option token_balance (brand_wallets d1 (bt_brand_id t))
               = Some (token_balance w + vr_tokens_credited r)
           \<and> 0 < vr_tokens_credited r)
      \<and> (\<forall>row\<in>set (brand_transactions d1).
            bt_id row = vi_transaction_id inp \<longrightarrow> bt_status row = Completed)
      \<and> verifyRecharge e now' inp' d1 = (Inl TransactionNotFoundOrAlreadyProcessed, d1)
      \<and> verifyEscrowDeposit e now' inp' d1 = (Inl TransactionNotFoundOrAlreadyProcessed, d1))
   \<and> (verifyEscrowDeposit e now inp d = (Inr r2, d2) \<and> vi_transaction_id inp' = vi_transaction_id inp \<longrightarrow>
      (\<exists>t w. find_pending d (vi_transaction_id inp) (vi_razorpay_order_id inp) = Some t
           \<and> brand_wallets d (bt_brand_id t) = Some w
           \<and> map_option escrow_balance (brand_wallets d2 (bt_brand_id t))
               = Some (escrow_balance w + ve_amount_credited r2))
      \<and> (\<forall>row\<in>set (brand_transactions d2).
            bt_id row = vi_transaction_id inp \<longrightarrow> bt_status row = Completed)
      \<and> verifyEscrowDeposit e now' inp' d2 = (Inl TransactionNotFoundOrAlreadyProcessed, d2)
      \<and> verifyRecharge e now' inp' d2 = (Inl TransactionNotFoundOrAlreadyProcessed, d2))"
proof (intro conjI impI)
  assume a: "verifyRecharge e now inp d = (Inr r, d1) \<and> vi_transaction_id inp' = vi_transaction_id inp"
  from verifyRecharge_success [of e now inp d r d1] a obtain t w where
    f: "find_pending d (vi_transaction_id inp) (vi_razorpay_order_id inp) = Some t"
    and pos: "0 < tokens_of (bt_metadata t)"
    and w: "brand_wallets d (bt_brand_id t) = Some w"
    and cr: "vr_tokens_credited r = tokens_of (bt_metadata t)"
    and d1: "d1 = update_brand_transaction (vi_transaction_id inp)
              (\<lambda>t'. t' \<lparr> bt_status := Completed,
                         bt_balance_after := token_balance w + tokens_of (bt_metadata t),
                         bt_processed_at := Some now,
                         bt_metadata := (bt_metadata t')
                            \<lparr> md_razorpay_payment_id := Some (vi_razorpay_payment_id inp) \<rparr> \<rparr>)
              (d \<lparr> brand_wallets := (brand_wallets d)(bt_brand_id t \<mapsto>
                 (if or_str (md_package_type (bt_metadata t)) ''subscription'' = ''subscription''
                  then w \<lparr> token_balance := token_balance w + tokens_of (bt_metadata t),
                           total_tokens_credited := total_tokens_credited w + tokens_of (bt_metadata t),
                           bw_last_transaction_at := Some now,
                           current_package := or_str (md_package_name (bt_metadata t)) ''unknown'',
                           current_package_id := unless_undefined (md_package_id (bt_metadata t)) (current_package_id w),
                           package_activated_at := Some now,
                           package_expires_at := expiry_after now (md_validity_days (bt_metadata t)) \<rparr>
                  else w \<lparr> token_balance := token_balance w + tokens_of (bt_metadata t),
                           total_tokens_credited := total_tokens_credited w + tokens_of (bt_metadata t),
                           bw_last_transaction_at := Some now \<rparr>)) \<rparr>)"
    by blast
  show "\<exists>t w. find_pending d (vi_transaction_id inp) (vi_razorpay_order_id inp) = Some t
           \<and> brand_wallets d (bt_brand_id t) = Some w
           \<and> map_option token_balance (brand_wallets d1 (bt_brand_id t))
               = Some (token_balance w + vr_tokens_credited r)
           \<and> 0 < vr_tokens_credited r"
    using f w pos cr by (intro exI [of _ t] exI [of _ w]) (simp add: d1)
  show "\<forall>row\<in>set (brand_transactions d1).
            bt_id row = vi_transaction_id inp \<longrightarrow> bt_status row = Completed"
    unfolding d1 by (intro ballI impI, erule completed_after_update) simp_all
  have none: "find_pending d1 (vi_transaction_id inp') (vi_razorpay_order_id inp') = None"
    using a unfolding d1 by (simp add: find_pending_after_update)
  show "verifyRecharge e now' inp' d1 = (Inl TransactionNotFoundOrAlreadyProcessed, d1)"
    using none by (rule verifyRecharge_not_pending)
  show "verifyEscrowDeposit e now' inp' d1 = (Inl TransactionNotFoundOrAlreadyProcessed, d1)"
    using none by (rule verifyEscrowDeposit_not_pending)
next
  assume a: "verifyEscrowDeposit e now inp d = (Inr r2, d2) \<and> vi_transaction_id inp' = vi_transaction_id inp"
  from verifyEscrowDeposit_success [of e now inp d r2 d2] a obtain t w where
    f: "find_pending d (vi_transaction_id inp) (vi_razorpay_order_id inp) = Some t"
    and w: "brand_wallets d (bt_brand_id t) = Some w"
    and cr: "ve_amount_credited r2 = bt_amount t"
    and d2: "d2 = update_brand_transaction (vi_transaction_id inp)
              (\<lambda>t'. t' \<lparr> bt_status := Completed,
                         bt_balance_after := escrow_balance w + bt_amount t,
                         bt_processed_at := Some now,
                         bt_metadata := (bt_metadata t')
                            \<lparr> md_razorpay_payment_id := Some (vi_razorpay_payment_id inp) \<rparr> \<rparr>)
              (d \<lparr> brand_wallets := (brand_wallets d)(bt_brand_id t \<mapsto>
                  w \<lparr> escrow_balance := escrow_balance w + bt_amount t,
                      total_escrow_deposited := total_escrow_deposited w + bt_amount t,
                      bw_last_transaction_at := Some now \<rparr>) \<rparr>)"
    by blast
  show "\<exists>t w. find_pending d (vi_transaction_id inp) (vi_razorpay_order_id inp) = Some t
           \<and> brand_wallets d (bt_brand_id t) = Some w
           \<and> map_option escrow_balance (brand_wallets d2 (bt_brand_id t))
               = Some (escrow_balance w + ve_amount_credited r2)"
    using f w cr by (intro exI [of _ t] exI [of _ w]) (simp add: d2)
  show "\<forall>row\<in>set (brand_transactions d2).
            bt_id row = vi_transaction_id inp \<longrightarrow> bt_status row = Completed"
    unfolding d2 by (intro ballI impI, erule completed_after_update) simp_all
  have none: "find_pending d2 (vi_transaction_id inp') (vi_razorpay_order_id inp') = None"
    using a unfolding d2 by (simp add: find_pending_after_update)
  show "verifyEscrowDeposit e now' inp' d2 = (Inl TransactionNotFoundOrAlreadyProcessed, d2)"
    using none by (rule verifyEscrowDeposit_not_pending)
  show "verifyRecharge e now' inp' d2 = (Inl TransactionNotFoundOrAlreadyProcessed, d2)"
    using none by (rule verifyRecharge_not_pending)
qed


theorem verify_twice_credits_once_witness:
  "(\<exists>r d1. verifyRecharge env_ex 9 (verify_ex 1 ''order_1'' ''pay_1'') db_ex = (Inr r, d1)
       \<and> vr_tokens_credited r = 50
       \<and> map_option token_balance (brand_wallets db_ex ''b1'') = Some 20
       \<and> map_option token_balance (brand_wallets d1 ''b1'') = Some 70
       \<and> verifyRecharge env_ex 10 (verify_ex 1 ''order_1'' ''pay_1'') d1
            = (Inl TransactionNotFoundOrAlreadyProcessed, d1))
   \<and> (\<exists>r2 d2. verifyEscrowDeposit env_ex 9 (verify_ex 2 ''order_2'' ''pay_2'') db_ex = (Inr r2, d2)
       \<and> ve_amount_credited r2 = 4000
       \<and> map_option escrow_balance (brand_wallets db_ex ''b1'') = Some 1000
       \<and> map_option escrow_balance (brand_wallets d2 ''b1'') = Some 5000
       \<and> verifyEscrowDeposit env_ex 10 (verify_ex 2 ''order_2'' ''pay_2'') d2
            = (Inl TransactionNotFoundOrAlreadyProcessed, d2))"
proof (intro conjI)
  let ?inp = "verify_ex 1 ''order_1'' ''pay_1''"
  let ?r = "\<lparr> vr_transaction_id = 1, vr_tokens_credited = 50, vr_new_balance = 70,
              vr_package_name = ''Topup 50'' \<rparr>"
  have "fst (verifyRecharge env_ex 9 ?inp db_ex) = Inr ?r"
    by (simp add: verifyRecharge_def find_pending_def verifyPaymentSignature_def
        in_transaction_def tokens_of_def or_str_def ex_defs Let_def)
  then obtain d1 where eq: "verifyRecharge env_ex 9 ?inp db_ex = (Inr ?r, d1)"
    by (cases "verifyRecharge env_ex 9 ?inp db_ex") auto
  have fp: "find_pending db_ex (vi_transaction_id ?inp) (vi_razorpay_order_id ?inp)
      = Some (pending_row 1 ''token_credit'' ''token'' 499 ''order_1'' (topup_snapshot 50))"
    by (simp add: find_pending_def ex_defs)
  have hb: "brand_wallets db_ex ''b1'' = Some brand_wallet_ex"
    by (simp add: db_ex_def)
  have bid: "bt_brand_id (pending_row 1 ''token_credit'' ''token'' 499 ''order_1'' (topup_snapshot 50)) = ''b1''"
    by (simp add: pending_row_def)
  from verify_twice_credits_once [where e = env_ex and now = 9 and inp = ?inp and d = db_ex
      and r = ?r and ?d1.0 = d1 and inp' = ?inp and now' = 10, THEN conjunct1] eq
  have tb: "\<exists>t w. find_pending db_ex (vi_transaction_id ?inp) (vi_razorpay_order_id ?inp) = Some t
           \<and> brand_wallets db_ex (bt_brand_id t) = Some w
           \<and> map_option token_balance (brand_wallets d1 (bt_brand_id t))
               = Some (token_balance w + vr_tokens_credited ?r)
           \<and> 0 < vr_tokens_credited ?r"
    and again: "verifyRecharge env_ex 10 ?inp d1 = (Inl TransactionNotFoundOrAlreadyProcessed, d1)"
    by simp_all
  from tb fp hb bid have "map_option token_balance (brand_wallets d1 ''b1'') = Some 70"
    by (auto simp: brand_wallet_ex_def)
  with eq again hb show "\<exists>r d1. verifyRecharge env_ex 9 ?inp db_ex = (Inr r, d1)
       \<and> vr_tokens_credited r = 50
       \<and> map_option token_balance (brand_wallets db_ex ''b1'') = Some 20
       \<and> map_option token_balance (brand_wallets d1 ''b1'') = Some 70
       \<and> verifyRecharge env_ex 10 ?inp d1 = (Inl TransactionNotFoundOrAlreadyProcessed, d1)"
    by (auto simp: brand_wallet_ex_def)
next
  let ?inp = "verify_ex 2 ''order_2'' ''pay_2''"
  let ?r = "\<lparr> ve_new_balance = 5000, ve_amount_credited = 4000, ve_transaction_id = 2 \<rparr>"
  have "fst (verifyEscrowDeposit env_ex 9 ?inp db_ex) = Inr ?r"
    by (simp add: verifyEscrowDeposit_def find_pending_def verifyPaymentSignature_def
        in_transaction_def ex_defs Let_def)
  then obtain d2 where eq: "verifyEscrowDeposit env_ex 9 ?inp db_ex = (Inr ?r, d2)"
    by (cases "verifyEscrowDeposit env_ex 9 ?inp db_ex") auto
  have fp: "find_pending db_ex (vi_transaction_id ?inp) (vi_razorpay_order_id ?inp)
      = Some (pending_row 2 ''escrow_deposit'' ''escrow'' 4000 ''order_2'' no_metadata)"
    by (simp add: find_pending_def ex_defs)
  have hb: "brand_wallets db_ex ''b1'' = Some brand_wallet_ex"
    by (simp add: db_ex_def)
  have bid: "bt_brand_id (pending_row 2 ''escrow_deposit'' ''escrow'' 4000 ''order_2'' no_metadata) = ''b1''"
    by (simp add: pending_row_def)
  from verify_twice_credits_once [where e = env_ex and now = 9 and inp = ?inp and d = db_ex
      and ?r2.0 = ?r and ?d2.0 = d2 and inp' = ?inp and now' = 10, THEN conjunct2] eq
  have tb: "\<exists>t w. find_pending db_ex (vi_transaction_id ?inp) (vi_razorpay_order_id ?inp) = Some t
           \<and> brand_wallets db_ex (bt_brand_id t) = Some w
           \<and> map_option escrow_balance (brand_wallets d2 (bt_brand_id t))
               = Some (escrow_balance w + ve_amount_credited ?r)"
    and again: "verifyEscrowDeposit env_ex 10 ?inp d2 = (Inl TransactionNotFoundOrAlreadyProcessed, d2)"
    by simp_all
  from tb fp hb bid have "map_option escrow_balance (brand_wallets d2 ''b1'') = Some 5000"
    by (auto simp: brand_wallet_ex_def)
  with eq again hb show "\<exists>r2 d2. verifyEscrowDeposit env_ex 9 ?inp db_ex = (Inr r2, d2)
       \<and> ve_amount_credited r2 = 4000
       \<and> map_option escrow_balance (brand_wallets db_ex ''b1'') = Some 1000
       \<and> map_option escrow_balance (brand_wallets d2 ''b1'') = Some 5000
       \<and> verifyEscrowDeposit env_ex 10 ?inp d2 = (Inl TransactionNotFoundOrAlreadyProcessed, d2)"
    by (auto simp: brand_wallet_ex_def)
qed

text \<open>
  What the verification paths do keep. A topup credited through \<open>verifyRecharge\<close> leaves
  the wallet's package columns alone. When \<open>verifyEscrowDeposit\<close> returns an error for a
  transaction it found, the wallet is untouched and every row under the id is failed; for
  \<open>verifyRecharge\<close> the same holds for every error but \<open>Invalid token amount\<close>.
\<close>

lemma verifyRecharge_topup_frame:
  assumes ok: "verifyRecharge e now vi d = (Inr r, d')"
    and f: "find_pending d (vi_transaction_id vi) (vi_razorpay_order_id vi) = Some t"
    and ty: "md_package_type (bt_metadata t) = Some ''topup''"
    and w: "brand_wallets d (bt_brand_id t) = Some w"
  shows "\<exists>w'. brand_wallets d' (bt_brand_id t) = Some w'
     \<and> current_package w' = current_package w
     \<and> current_package_id w' = current_package_id w
     \<and> package_activated_at w' = package_activated_at w
     \<and> package_expires_at w' = package_expires_at w
     \<and> token_balance w' = token_balance w + vr_tokens_credited r
     \<and> total_tokens_credited w' = total_tokens_credited w + vr_tokens_credited r"
  using verifyRecharge_success [OF ok] f ty w
  by (auto simp: or_str_def)

lemma verifyEscrowDeposit_error_found:
  assumes "verifyEscrowDeposit e now vi d = (Inl err, d')"
    and "find_pending d (vi_transaction_id vi) (vi_razorpay_order_id vi) = Some t"
  shows "brand_wallets d' = brand_wallets d
     \<and> (\<forall>row\<in>set (brand_transactions d').
           bt_id row = vi_transaction_id vi \<longrightarrow> bt_status row = Failed)"
  using assms
  by (auto simp: verifyEscrowDeposit_def in_transaction_def Let_def
           split: if_splits option.splits
           elim!: completed_after_update)

lemma verifyRecharge_error_found:
  assumes "verifyRecharge e now vi d = (Inl err, d')"
    and "find_pending d (vi_transaction_id vi) (vi_razorpay_order_id vi) = Some t"
  shows "brand_wallets d' = brand_wallets d
     \<and> (err = InvalidTokenAmount \<and> d' = d
        \<or> (\<forall>row\<in>set (brand_transactions d').
              bt_id row = vi_transaction_id vi \<longrightarrow> bt_status row = Failed))"
  using assms
  by (auto simp: verifyRecharge_def in_transaction_def Let_def mark_failed_def
           split: if_splits option.splits
           elim!: completed_after_update)

text \<open>
  C9 at a failing input. Transaction 3 is pending and its package snapshot holds
  \<open>tokens_included = 0\<close>. \<open>verifyRecharge\<close> finds it, the signature is valid, and the
  check \<open>tokensToCredit <= 0\<close> throws before the storage transaction is opened and outside
  the \<open>try\<close> whose \<open>catch\<close> marks the row failed: the call returns an error and the row
  is still pending.
\<close>

theorem verifyRecharge_invalid_tokens_stays_pending:
  "verifyPaymentSignature env_ex ''order_3'' ''pay_3''
      (vi_razorpay_signature (verify_ex 3 ''order_3'' ''pay_3''))
   \<and> map_option bt_status (find_pending db_ex 3 ''order_3'') = Some Pending
   \<and> verifyRecharge env_ex 9 (verify_ex 3 ''order_3'' ''pay_3'') db_ex
       = (Inl InvalidTokenAmount, db_ex)
   \<and> map_option bt_status
       (find_pending (snd (verifyRecharge env_ex 9 (verify_ex 3 ''order_3'' ''pay_3'') db_ex))
          3 ''order_3'') = Some Pending"
  by (simp add: verifyRecharge_def find_pending_def verifyPaymentSignature_def
        tokens_of_def or_num_def ex_defs Let_def)

text \<open>
  C8 at a failing input. Transaction 1 is the pending purchase of a topup package by a
  brand on the package \<open>pro\<close>. Credited through the webhook, the wallet's
  \<open>current_package\<close> becomes the topup's name and \<open>package_activated_at\<close> the time of
  the call; credited through \<open>verifyRecharge\<close>, both stay as they were.
\<close>

theorem handleWebhook_topup_changes_package:
  "map_option (md_package_type \<circ> bt_metadata)
       (find (\<lambda>t. bt_payment_gateway_id t = Some ''order_1'' \<and> bt_status t = Pending)
          (brand_transactions db_ex)) = Some (Some ''topup'')
   \<and> map_option current_package (brand_wallets db_ex ''b1'') = Some ''pro''
   \<and> map_option package_activated_at (brand_wallets db_ex ''b1'') = Some (Some 1)
   \<and> fst (handleWebhook env_ex 9 ''payment.captured'' webhook_ex [] db_ex)
       = \<lparr> processed = True, wr_message = ''Payment processed successfully'' \<rparr>
   \<and> map_option current_package
       (brand_wallets (snd (handleWebhook env_ex 9 ''payment.captured'' webhook_ex [] db_ex)) ''b1'')
       = Some ''topup_50''
   \<and> map_option package_activated_at
       (brand_wallets (snd (handleWebhook env_ex 9 ''payment.captured'' webhook_ex [] db_ex)) ''b1'')
       = Some (Some 9)
   \<and> map_option current_package
       (brand_wallets (snd (verifyRecharge env_ex 9 (verify_ex 1 ''order_1'' ''pay_1'') db_ex)) ''b1'')
       = Some ''pro''
   \<and> map_option package_activated_at
       (brand_wallets (snd (verifyRecharge env_ex 9 (verify_ex 1 ''order_1'' ''pay_1'') db_ex)) ''b1'')
       = Some (Some 1)"
  by (simp add: handleWebhook_def verifyRecharge_def find_pending_def verifyPaymentSignature_def
        in_transaction_def update_brand_transaction_def tokens_of_def or_str_def ex_defs Let_def)


section \<open>Creator unlock\<close>

lemma getOrCreateBrandWallet_result:
  assumes "getOrCreateBrandWallet now u d = (Inr (b, w, p), d0)"
  shows "(\<exists>br. getBrandByUserId d u = Some br \<and> brand_id br = b)
     \<and> brand_wallets d0 b = Some w
     \<and> brands d0 = brands d \<and> packages d0 = packages d
     \<and> brand_unlocked_creators d0 = brand_unlocked_creators d
     \<and> ce_users d0 = ce_users d
     \<and> p = (if current_package w \<noteq> [] \<and> current_package w \<noteq> ''none''
            then getPackageByName d0 ''brand'' (current_package w) else None)"
  using assms
  by (auto simp: getOrCreateBrandWallet_def Let_def getPackageByName_def
           split: option.splits if_splits prod.splits)

lemma getOrCreateBrandWallet_existing:
  assumes "getBrandByUserId d u = Some br" "brand_wallets d (brand_id br) = Some w"
  shows "getOrCreateBrandWallet now u d
     = (Inr (brand_id br, w,
             if current_package w \<noteq> [] \<and> current_package w \<noteq> ''none''
             then getPackageByName d ''brand'' (current_package w) else None), d)"
  using assms by (simp add: getOrCreateBrandWallet_def Let_def)

lemma find_append_last: "P x \<Longrightarrow> find P (xs @ [x]) \<noteq> None"
  by (auto simp: find_None_iff)

lemma unlockCreator_success:
  assumes "unlockCreator now inp d = (Inr r, d1)"
  shows "\<exists>b w pkg d0 row rec.
       getOrCreateBrandWallet now (ui_brand_user_id inp) d = (Inr (b, w, Some pkg), d0)
     \<and> find (\<lambda>u. uc_brand_id u = b \<and> uc_creator_id u = ui_creator_id inp)
          (brand_unlocked_creators d0) = None
     \<and> ur_tokens_spent r = or_num (pkg_report_token_cost pkg) 5
     \<and> ur_tokens_spent r \<le> token_balance w
     \<and> ur_remaining_token_balance r = token_balance w - ur_tokens_spent r
     \<and> brand_wallets d1 = (brand_wallets d0)(b \<mapsto>
          w \<lparr> token_balance := token_balance w - ur_tokens_spent r,
              total_tokens_debited := total_tokens_debited w + ur_tokens_spent r,
              bw_last_transaction_at := Some now \<rparr>)
     \<and> brand_transactions d1 = brand_transactions d0 @ [row]
     \<and> bt_transaction_type row = ''creator_unlock'' \<and> bt_amount row = ur_tokens_spent r
     \<and> bt_brand_id row = b \<and> bt_status row = Completed
     \<and> bt_balance_after row = token_balance w - ur_tokens_spent r
     \<and> brand_unlocked_creators d1 = brand_unlocked_creators d0 @ [rec]
     \<and> uc_brand_id rec = b \<and> uc_creator_id rec = ui_creator_id inp
     \<and> brands d1 = brands d0 \<and> packages d1 = packages d0"
proof -
  obtain res d0 where g: "getOrCreateBrandWallet now (ui_brand_user_id inp) d = (res, d0)"
    by (cases "getOrCreateBrandWallet now (ui_brand_user_id inp) d")
  with assms obtain b w p where res: "res = Inr (b, w, p)"
    by (cases res) (auto simp: unlockCreator_def)
  with assms g obtain pkg where p: "p = Some pkg"
    by (cases p) (auto simp: unlockCreator_def)
  from getOrCreateBrandWallet_result [OF g [unfolded res]]
  have bw: "brand_wallets d0 b = Some w" by simp
  show ?thesis
    using assms g res p bw
    by (auto simp: unlockCreator_def in_transaction_def Let_def
             split: option.splits if_splits)
qed


lemma unlockCreator_already_unlocked:
  assumes br: "getBrandByUserId d (ui_brand_user_id inp) = Some br"
    and w: "brand_wallets d (brand_id br) = Some w"
    and pk: "current_package w \<noteq> [] \<and> current_package w \<noteq> ''none''"
    and p: "getPackageByName d ''brand'' (current_package w) = Some pkg"
    and u: "find (\<lambda>u. uc_brand_id u = brand_id br \<and> uc_creator_id u = ui_creator_id inp)
              (brand_unlocked_creators d) \<noteq> None"
  shows "unlockCreator now inp d = (Inl CreatorAlreadyUnlocked, d)"
  using u p pk
  by (auto simp: unlockCreator_def getOrCreateBrandWallet_existing [OF br w]
        in_transaction_def)

text \<open>
  C5, as the code has it. When \<open>unlockCreator\<close> succeeds it debits the report token cost
  from the brand's \<open>token_balance\<close> and appends one \<open>creator_unlock\<close> transaction of
  that amount. A second call for the same brand user and creator is rejected with
  \<open>Creator profile is already unlocked\<close>; it writes nothing, so there is no second debit
  and no new transaction.
\<close>

theorem unlock_twice_charges_once:
  assumes first: "unlockCreator now inp d = (Inr r, d1)"
  shows "(\<exists>b w pk d0 row.
            getOrCreateBrandWallet now (ui_brand_user_id inp) d = (Inr (b, w, pk), d0)
          \<and> map_option token_balance (brand_wallets d1 b)
              = Some (token_balance w - ur_tokens_spent r)
          \<and> brand_transactions d1 = brand_transactions d0 @ [row]
          \<and> bt_transaction_type row = ''creator_unlock''
          \<and> bt_amount row = ur_tokens_spent r)
     \<and> unlockCreator now' inp d1 = (Inl CreatorAlreadyUnlocked, d1)"
proof -
  from unlockCreator_success [OF first] obtain b w pkg d0 row rec where
    g: "getOrCreateBrandWallet now (ui_brand_user_id inp) d = (Inr (b, w, Some pkg), d0)"
    and bw1: "brand_wallets d1 = (brand_wallets d0)(b \<mapsto>
          w \<lparr> token_balance := token_balance w - ur_tokens_spent r,
              total_tokens_debited := total_tokens_debited w + ur_tokens_spent r,
              bw_last_transaction_at := Some now \<rparr>)"
    and bt1: "brand_transactions d1 = brand_transactions d0 @ [row]"
    and row: "bt_transaction_type row = ''creator_unlock''" "bt_amount row = ur_tokens_spent r"
    and uc1: "brand_unlocked_creators d1 = brand_unlocked_creators d0 @ [rec]"
    and rec: "uc_brand_id rec = b" "uc_creator_id rec = ui_creator_id inp"
    and same: "brands d1 = brands d0" "packages d1 = packages d0"
    by blast
  from getOrCreateBrandWallet_result [OF g] obtain br where
    br: "getBrandByUserId d (ui_brand_user_id inp) = Some br" and b: "brand_id br = b"
    and same0: "brands d0 = brands d" "packages d0 = packages d"
    and pk: "Some pkg = (if current_package w \<noteq> [] \<and> current_package w \<noteq> ''none''
            then getPackageByName d0 ''brand'' (current_package w) else None)"
    by blast
  let ?w1 = "w \<lparr> token_balance := token_balance w - ur_tokens_spent r,
              total_tokens_debited := total_tokens_debited w + ur_tokens_spent r,
              bw_last_transaction_at := Some now \<rparr>"
  have br1: "getBrandByUserId d1 (ui_brand_user_id inp) = Some br"
    using br same same0 by (simp add: getBrandByUserId_def)
  have w1: "brand_wallets d1 (brand_id br) = Some ?w1"
    using bw1 b by simp
  have named: "current_package ?w1 \<noteq> [] \<and> current_package ?w1 \<noteq> ''none''"
    using pk by (auto split: if_splits)
  have p1: "getPackageByName d1 ''brand'' (current_package ?w1) = Some pkg"
    using pk same by (auto simp: getPackageByName_def split: if_splits)
  have u1: "find (\<lambda>u. uc_brand_id u = brand_id br \<and> uc_creator_id u = ui_creator_id inp)
              (brand_unlocked_creators d1) \<noteq> None"
    unfolding uc1 using rec b by (intro find_append_last) simp
  have second: "unlockCreator now' inp d1 = (Inl CreatorAlreadyUnlocked, d1)"
    by (rule unlockCreator_already_unlocked [OF br1 w1 named p1 u1])
  have "map_option token_balance (brand_wallets d1 b) = Some (token_balance w - ur_tokens_spent r)"
    using bw1 by simp
  with g bt1 row second show ?thesis by blast
qed

theorem unlock_twice_charges_once_witness:
  "\<exists>r d1. unlockCreator 9 unlock_ex db_ex = (Inr r, d1) \<and> ur_tokens_spent r = 5
     \<and> map_option token_balance (brand_wallets db_ex ''b1'') = Some 20
     \<and> map_option token_balance (brand_wallets d1 ''b1'') = Some 15
     \<and> length (brand_transactions d1) = Suc (length (brand_transactions db_ex))
     \<and> unlockCreator 10 unlock_ex d1 = (Inl CreatorAlreadyUnlocked, d1)"
proof -
  let ?r = "\<lparr> ur_unlock_id = 1, ur_creator_id = ''c1'', ur_tokens_spent = 5,
              ur_remaining_token_balance = 15, ur_unlocked_at = 9 \<rparr>"
  have "fst (unlockCreator 9 unlock_ex db_ex) = Inr ?r"
    by (simp add: unlockCreator_def getOrCreateBrandWallet_def getBrandByUserId_def
        getPackageByName_def in_transaction_def or_num_def fresh_id_def ex_defs Let_def)
  then obtain d1 where eq: "unlockCreator 9 unlock_ex db_ex = (Inr ?r, d1)"
    by (cases "unlockCreator 9 unlock_ex db_ex") auto
  have g: "getOrCreateBrandWallet 9 (ui_brand_user_id unlock_ex) db_ex
      = (Inr (''b1'', brand_wallet_ex, Some pro_package), db_ex)"
    by (simp add: getOrCreateBrandWallet_def getBrandByUserId_def getPackageByName_def
        unlock_ex_def db_ex_def brand_wallet_ex_def pro_package_def Let_def)
  from unlock_twice_charges_once [OF eq, of 10] g
  have tb: "map_option token_balance (brand_wallets d1 ''b1'') = Some 15"
    and len: "length (brand_transactions d1) = Suc (length (brand_transactions db_ex))"
    and again: "unlockCreator 10 unlock_ex d1 = (Inl CreatorAlreadyUnlocked, d1)"
    by (auto simp: brand_wallet_ex_def)
  have "map_option token_balance (brand_wallets db_ex ''b1'') = Some 20"
    by (simp add: db_ex_def brand_wallet_ex_def)
  with eq tb len again show ?thesis by auto
qed

text \<open>
  C5 as stated has the second call return success. On the example store the first unlock
  succeeds and the second one returns the error.
\<close>

theorem unlock_second_call_counterexample:
  "\<not> isl (fst (unlockCreator 9 unlock_ex db_ex))
   \<and> fst (unlockCreator 10 unlock_ex (snd (unlockCreator 9 unlock_ex db_ex)))
       = Inl CreatorAlreadyUnlocked"
  by (simp add: unlockCreator_def getOrCreateBrandWallet_def getBrandByUserId_def
        getPackageByName_def in_transaction_def or_num_def fresh_id_def ex_defs Let_def)


section \<open>Balance snapshots\<close>

text \<open>
  A release logs the creator's earning in the table \<open>transactions\<close> together with the
  balance it leaves: on the example store, 200 released to a creator holding 10000 gives a
  completed row with \<open>balance_after\<close> 10200, the creator's \<open>balance\<close> after the credit.
\<close>

lemma release_creator_row_snapshot_scenario:
  "map tx_status (transactions (snd (releaseEscrow 7 (release_ex 200) db_ex))) = [Completed]
   \<and> map tx_balance_after (transactions (snd (releaseEscrow 7 (release_ex 200) db_ex)))
       = [Some 10200]
   \<and> map_option balance (wallets (snd (releaseEscrow 7 (release_ex 200) db_ex)) ''c1'')
       = Some 10200"
  by (simp add: releaseEscrow_def in_transaction_def ex_defs Let_def)

text \<open>
  C10 at a failing input. A withdrawal is logged in the same table through
  \<open>createTransaction\<close>, which writes no \<open>balance_after\<close>, and \<open>processWithdrawal\<close>
  completes that row without setting it. Creator \<open>c1\<close> holds 10000, asks for 5000 and
  the payout is confirmed: the row is completed with amount \<open>-5000\<close> and carries no
  \<open>balance_after\<close>, while the wallet's \<open>balance\<close> is 5000.
\<close>

theorem withdrawal_completed_without_balance_after:
  "map_option balance (wallets db_ex ''c1'') = Some 10000
   \<and> map tx_status (transactions (snd (requestWithdrawal 7 ''c1'' 5000 ''ba1'' db_ex)))
       = [Pending]
   \<and> map tx_balance_after (transactions (snd (requestWithdrawal 7 ''c1'' 5000 ''ba1'' db_ex)))
       = [None]
   \<and> map tx_status (transactions withdrawn_ex) = [Completed]
   \<and> map tx_amount (transactions withdrawn_ex) = [- 5000]
   \<and> map tx_balance_after (transactions withdrawn_ex) = [None]
   \<and> map_option balance (wallets withdrawn_ex ''c1'') = Some 5000
   \<and> map_option pending_balance (wallets withdrawn_ex ''c1'') = Some 0
   \<and> map_option total_withdrawals (wallets withdrawn_ex ''c1'') = Some 5000"
  by (simp add: withdrawn_ex_def processWithdrawal_def requestWithdrawal_def
      createTransaction_def updateTransactionStatus_def update_wallet_def
      getTransactionById_def truthy_def fresh_id_def db_ex_def wallet_ex_def Let_def)

end
